theory Spec2Isabelle
  imports Main
begin

unbundle bit_operations_syntax

section \<open>Python values of a decoded JSON report\<close>

text \<open>
  The scan report is the decoded JSON body of the assessment response: \<open>None\<close>, booleans,
  numbers, strings, lists and dicts with string keys. A dict is an association list in
  which the first binding of a key is the entry of the dict. Numbers are integers here;
  the program never computes with a number of the report, and every operation it applies
  to a report value (subscripting with a string, \<open>.get\<close>, \<open>.lower\<close>, iteration) treats
  an integer and a float alike.

  A string is the list of the bytes of its UTF-8 encoding. \<open>str.lower\<close> is modelled on
  the ASCII letters and leaves every other byte unchanged. The program only ever
  compares the lowered string with the ASCII words \<open>low\<close>, \<open>medium\<close>, \<open>high\<close>,
  \<open>critical\<close>, \<open>malware\<close>, \<open>secret\<close>, \<open>misconfiguration\<close> and \<open>cis\<close>; what
  Python makes of a character outside ASCII contains a character outside ASCII, except
  for the Kelvin sign, which becomes \<open>k\<close>, a letter none of these words contains, so
  the outcome of every such comparison is the one computed here.
\<close>

datatype json =
    JNull
  | JBool bool
  | JNum int
  | JStr string
  | JList "json list"
  | JDict "(string \<times> json) list"

type_synonym pydict = "(string \<times> json) list"

text \<open>The exceptions the program can meet; \<open>RetryExhaustedError\<close> carries the retry
  count its message names.\<close>

datatype error =
    KeyError
  | TypeError
  | AttributeError
  | ValueError
  | OSError
  | APIError
  | RetryExhaustedError int

text \<open>Sequencing of statements that may raise: the first exception ends the block.\<close>

fun ebind :: "error + 'a \<Rightarrow> ('a \<Rightarrow> error + 'b) \<Rightarrow> error + 'b" where
  "ebind (Inl e) f = Inl e"
| "ebind (Inr x) f = f x"

text \<open>\<open>x[k]\<close> for a string key \<open>k\<close>: a dict raises \<open>KeyError\<close> on a missing key; a
  list or a string wants integer indices, and \<open>None\<close>, a boolean or a number is not
  subscriptable: all of these raise \<open>TypeError\<close>.\<close>

fun py_getitem :: "json \<Rightarrow> string \<Rightarrow> error + json" where
  "py_getitem (JDict kvs) k = (case map_of kvs k of None \<Rightarrow> Inl KeyError | Some v \<Rightarrow> Inr v)"
| "py_getitem JNull k = Inl TypeError"
| "py_getitem (JBool b) k = Inl TypeError"
| "py_getitem (JNum n) k = Inl TypeError"
| "py_getitem (JStr s) k = Inl TypeError"
| "py_getitem (JList xs) k = Inl TypeError"

text \<open>\<open>x.get(k, default)\<close>: only a dict has the method; anything else raises
  \<open>AttributeError\<close>.\<close>

fun py_get :: "json \<Rightarrow> string \<Rightarrow> json \<Rightarrow> error + json" where
  "py_get (JDict kvs) k d = (case map_of kvs k of None \<Rightarrow> Inr d | Some v \<Rightarrow> Inr v)"
| "py_get JNull k d = Inl AttributeError"
| "py_get (JBool b) k d = Inl AttributeError"
| "py_get (JNum n) k d = Inl AttributeError"
| "py_get (JStr s) k d = Inl AttributeError"
| "py_get (JList xs) k d = Inl AttributeError"

definition lower_char :: "char \<Rightarrow> char" where
  "lower_char c =
     (let n = (of_char c :: nat) in if 65 \<le> n \<and> n \<le> 90 then char_of (n + 32) else c)"

definition str_lower :: "string \<Rightarrow> string" where
  "str_lower s = map lower_char s"

text \<open>\<open>x.lower()\<close>: only a string has the method.\<close>

fun py_lower :: "json \<Rightarrow> error + string" where
  "py_lower (JStr s) = Inr (str_lower s)"
| "py_lower JNull = Inl AttributeError"
| "py_lower (JBool b) = Inl AttributeError"
| "py_lower (JNum n) = Inl AttributeError"
| "py_lower (JList xs) = Inl AttributeError"
| "py_lower (JDict kvs) = Inl AttributeError"

text \<open>\<open>for x in v\<close>: a list yields its elements, a dict its keys, a string its
  characters (as strings of length one); a boolean or a number is not iterable, nor is
  \<open>None\<close>.\<close>

fun py_iter :: "json \<Rightarrow> error + json list" where
  "py_iter (JList xs) = Inr xs"
| "py_iter (JDict kvs) = Inr (map JStr (remdups (map fst kvs)))"
| "py_iter (JStr s) = Inr (map (\<lambda>c. JStr [c]) s)"
| "py_iter JNull = Inl TypeError"
| "py_iter (JBool b) = Inl TypeError"
| "py_iter (JNum n) = Inl TypeError"

fun is_dict :: "json \<Rightarrow> bool" where
  "is_dict (JDict kvs) = True"
| "is_dict JNull = False"
| "is_dict (JBool b) = False"
| "is_dict (JNum n) = False"
| "is_dict (JStr s) = False"
| "is_dict (JList xs) = False"

section \<open>ScanStatusCode\<close>

datatype ScanStatusCode = Vulnerability | Malware | Secrets | Success | ScriptFailure

fun enum_value :: "ScanStatusCode \<Rightarrow> int" where
  "enum_value Vulnerability = 1"
| "enum_value Malware = 2"
| "enum_value Secrets = 3"
| "enum_value Success = 0"
| "enum_value ScriptFailure = 10"

section \<open>ScanReport\<close>

text \<open>\<open>ScanReport\<close> subclasses \<open>dict\<close> and adds no \<open>__missing__\<close>: \<open>self[key]\<close> is
  the dict's own subscript.\<close>

type_synonym ScanReport = pydict

definition vuln_str_key_1 :: string where "vuln_str_key_1 = ''Vulnerabilities''"
definition detect_str_key :: string where "detect_str_key = ''Detections''"
definition type_malware :: string where "type_malware = ''malware''"
definition type_secret :: string where "type_secret = ''secret''"
definition type_misconfig :: string where "type_misconfig = ''misconfiguration''"
definition type_cis :: string where "type_cis = ''cis''"

subsection \<open>get_alerts_vuln\<close>

text \<open>Lines 232 to 241: the severity of a finding from its \<open>Details\<close>. The two tests
  are \<open>severity is None\<close>; the third lookup has the default \<open>""\<close>, the first two have
  the default \<open>None\<close>.\<close>

definition resolve_severity :: "json \<Rightarrow> error + json" where
  "resolve_severity details =
     (if is_dict details then
        ebind (py_get details ''severity'' JNull) (\<lambda>severity.
        ebind (if severity = JNull
               then ebind (py_get details ''cvss_v3_score'' (JDict [])) (\<lambda>cvss_v3.
                      py_get cvss_v3 ''severity'' JNull)
               else Inr severity) (\<lambda>severity.
        if severity = JNull
        then ebind (py_get details ''cvss_v2_score'' (JDict [])) (\<lambda>cvss_v2.
               py_get cvss_v2 ''severity'' (JStr ''''))
        else Inr severity))
      else Inr (JStr ''''))"

text \<open>Lines 228 to 250: what one iteration does before it scores. The log call formats
  its arguments with \<open>%s\<close>, which no value refuses, and has no other effect on the
  computation; it is left out. The value is the severity.\<close>

definition finding_severity :: "json \<Rightarrow> error + json" where
  "finding_severity vulnerability =
     ebind (py_getitem vulnerability ''Vulnerability'') (\<lambda>vuln.
     ebind (py_get vuln ''CVEID'' (JStr ''CVE-unknown'')) (\<lambda>cve.
     ebind (py_get vuln ''Details'' JNull) (\<lambda>details.
     ebind (resolve_severity details) (\<lambda>severity.
     ebind (py_get vuln ''Product'' (JDict [])) (\<lambda>product.
     ebind (py_get product ''PackageSource'' product) (\<lambda>affects.
     Inr severity))))))"

text \<open>One of the four statements of lines 251 to 258:
  \<open>if severity.lower() == label: vuln_score = vuln_score + points\<close>.\<close>

definition add_if :: "json \<Rightarrow> string \<Rightarrow> int \<Rightarrow> int \<Rightarrow> error + int" where
  "add_if severity label points vuln_score =
     ebind (py_lower severity) (\<lambda>l.
       Inr (if l = label then vuln_score + points else vuln_score))"

definition add_points :: "json \<Rightarrow> int \<Rightarrow> error + int" where
  "add_points severity vuln_score =
     ebind (add_if severity ''low'' 20 vuln_score) (\<lambda>vuln_score.
     ebind (add_if severity ''medium'' 100 vuln_score) (\<lambda>vuln_score.
     ebind (add_if severity ''high'' 500 vuln_score) (\<lambda>vuln_score.
     add_if severity ''critical'' 2000 vuln_score)))"

text \<open>The loop of lines 227 to 258, with the running \<open>vuln_score\<close>.\<close>

fun vuln_loop :: "json list \<Rightarrow> int \<Rightarrow> error + int" where
  "vuln_loop [] vuln_score = Inr vuln_score"
| "vuln_loop (vulnerability # rest) vuln_score =
     ebind (finding_severity vulnerability) (\<lambda>severity.
     ebind (add_points severity vuln_score) (\<lambda>vuln_score.
     vuln_loop rest vuln_score))"

definition get_alerts_vuln :: "ScanReport \<Rightarrow> error + int" where
  "get_alerts_vuln self =
     ebind (py_getitem (JDict self) vuln_str_key_1) (\<lambda>vulnerabilities.
     if vulnerabilities \<noteq> JNull
     then ebind (py_iter vulnerabilities) (\<lambda>items. vuln_loop items 0)
     else Inr 0)"

subsection \<open>The detection scans\<close>

text \<open>\<open>detection["Detection"]["Type"].lower()\<close>, the expression the three scans test.\<close>

definition detection_type :: "json \<Rightarrow> error + string" where
  "detection_type detection =
     ebind (py_getitem detection ''Detection'') (\<lambda>d.
     ebind (py_getitem d ''Type'') py_lower)"

text \<open>Each loop carries \<open>det_code\<close>; \<open>except KeyError: continue\<close> skips the entry, any
  other exception leaves the method; a match assigns and breaks.\<close>

fun malware_loop :: "json list \<Rightarrow> int \<Rightarrow> error + int" where
  "malware_loop [] det_code = Inr det_code"
| "malware_loop (detection # rest) det_code =
     (case detection_type detection of
        Inr t \<Rightarrow> if t = type_malware then Inr (enum_value Malware)
                 else malware_loop rest det_code
      | Inl e \<Rightarrow> if e = KeyError then malware_loop rest det_code else Inl e)"

definition get_alerts_malware :: "ScanReport \<Rightarrow> error + int" where
  "get_alerts_malware self =
     ebind (py_getitem (JDict self) detect_str_key) (\<lambda>detections.
     if detections \<noteq> JNull
     then ebind (py_iter detections) (\<lambda>items. malware_loop items 0)
     else Inr 0)"

fun secrets_loop :: "json list \<Rightarrow> int \<Rightarrow> error + int" where
  "secrets_loop [] det_code = Inr det_code"
| "secrets_loop (detection # rest) det_code =
     (case detection_type detection of
        Inr t \<Rightarrow> if t = type_secret then Inr (enum_value Secrets)
                 else secrets_loop rest det_code
      | Inl e \<Rightarrow> if e = KeyError then secrets_loop rest det_code else Inl e)"

definition get_alerts_secrets :: "ScanReport \<Rightarrow> error + int" where
  "get_alerts_secrets self =
     ebind (py_getitem (JDict self) detect_str_key) (\<lambda>detections.
     if detections \<noteq> JNull
     then ebind (py_iter detections) (\<lambda>items. secrets_loop items 0)
     else Inr 0)"

fun misconfig_loop :: "json list \<Rightarrow> int \<Rightarrow> error + int" where
  "misconfig_loop [] det_code = Inr det_code"
| "misconfig_loop (detection # rest) det_code =
     (case detection_type detection of
        Inr t \<Rightarrow> if t \<in> set [type_misconfig, type_cis] then Inr (enum_value Success)
                 else misconfig_loop rest det_code
      | Inl e \<Rightarrow> if e = KeyError then misconfig_loop rest det_code else Inl e)"

definition get_alerts_misconfig :: "ScanReport \<Rightarrow> error + int" where
  "get_alerts_misconfig self =
     ebind (py_getitem (JDict self) detect_str_key) (\<lambda>detections.
     if detections \<noteq> JNull
     then ebind (py_iter detections) (\<lambda>items. misconfig_loop items 0)
     else Inr 0)"

subsection \<open>status_code\<close>

definition status_code :: "ScanReport \<Rightarrow> error + int" where
  "status_code self =
     ebind (get_alerts_vuln self) (\<lambda>vuln_code.
     ebind (get_alerts_malware self) (\<lambda>mal_code.
     ebind (get_alerts_secrets self) (\<lambda>sec_code.
     ebind (get_alerts_misconfig self) (\<lambda>mcfg_code.
     Inr (vuln_code OR mal_code OR sec_code OR mcfg_code)))))"

section \<open>get_scanreport\<close>

text \<open>
  The assessment endpoint is a function from the number of calls made before to the
  response of the next call: its status code and its body, which the client library
  hands over as a dict. What the poll does to the outside is a trace of events: a sleep
  of so many seconds, or a call of the endpoint.
\<close>

record response =
  resp_status_code :: int
  resp_body :: pydict

datatype event = Sleep int | GetAssessment

definition sleep_seconds :: int where "sleep_seconds = 10"

text \<open>The loop \<open>for count in range(retry_count)\<close> from \<open>count\<close> on, and the
  \<open>raise\<close> after it. \<open>ScanReport(resp["body"])\<close> copies the dict.\<close>

function poll :: "(nat \<Rightarrow> response) \<Rightarrow> int \<Rightarrow> nat \<Rightarrow> event list \<times> (error + ScanReport)" where
  "poll falcon retry_count count =
     (if int count < retry_count then
        (let resp = falcon count in
         if resp_status_code resp \<noteq> 200
         then (let (evs, r) = poll falcon retry_count (count + 1)
               in (Sleep sleep_seconds # GetAssessment # evs, r))
         else ([Sleep sleep_seconds, GetAssessment], Inr (resp_body resp)))
      else ([], Inl (RetryExhaustedError retry_count)))"
  by pat_completeness auto
termination
  by (relation "measure (\<lambda>(falcon, retry_count, count). nat (retry_count - int count))") auto

definition get_scanreport :: "(nat \<Rightarrow> response) \<Rightarrow> int \<Rightarrow> event list \<times> (error + ScanReport)" where
  "get_scanreport falcon retry_count = poll falcon retry_count 0"

section \<open>main\<close>

text \<open>
  What \<open>main\<close> does before it downloads the report (the arguments, the container
  runtime, tag, login and push) is taken to have succeeded. Lines 550 to 584, the part
  of \<open>main\<close> from the download of the report on, are modelled as a block
  that ends in \<open>sys.exit(code)\<close> (\<open>Inr code\<close>; \<open>SystemExit\<close> is no \<open>Exception\<close> and
  passes the handlers) or in an exception. \<open>plugin\<close> is the flag \<open>--plugin\<close>; \<open>export\<close>
  is \<open>None\<close> when no JSON report is asked for or the file was written, and the exception
  of the write otherwise; \<open>score\<close> is what \<open>int(score)\<close> gives for the threshold
  argument, which is evaluated only when neither secrets nor malware were found.
\<close>

definition main_body ::
    "(nat \<Rightarrow> response) \<Rightarrow> int \<Rightarrow> bool \<Rightarrow> error option \<Rightarrow> error + int \<Rightarrow> error + int" where
  "main_body falcon retry_count plugin export score =
     ebind (snd (get_scanreport falcon retry_count)) (\<lambda>scan_report.
     if plugin then Inr 0
     else
       ebind (case export of None \<Rightarrow> Inr () | Some e \<Rightarrow> Inl e) (\<lambda>_.
       ebind (get_alerts_vuln scan_report) (\<lambda>f_vuln_score.
       ebind (get_alerts_secrets scan_report) (\<lambda>f_secrets.
       ebind (get_alerts_malware scan_report) (\<lambda>f_malware.
       ebind (get_alerts_misconfig scan_report) (\<lambda>_.
       if f_secrets = enum_value Secrets then Inr (enum_value Secrets)
       else if f_malware = enum_value Malware then Inr (enum_value Malware)
       else ebind score (\<lambda>threshold.
         if f_vuln_score \<ge> threshold then Inr (enum_value Vulnerability)
         else Inr (enum_value Success))))))))"

text \<open>The handlers of lines 586 to 594: every exception exits with \<open>ScriptFailure\<close>.\<close>

fun handler :: "error \<Rightarrow> int" where
  "handler APIError = enum_value ScriptFailure"
| "handler (RetryExhaustedError n) = enum_value ScriptFailure"
| "handler e = enum_value ScriptFailure"

definition main ::
    "(nat \<Rightarrow> response) \<Rightarrow> int \<Rightarrow> bool \<Rightarrow> error option \<Rightarrow> error + int \<Rightarrow> int" where
  "main falcon retry_count plugin export score =
     (case main_body falcon retry_count plugin export score of
        Inr code \<Rightarrow> code
      | Inl e \<Rightarrow> handler e)"

section \<open>Vocabulary of the properties\<close>

subsection \<open>Severities and findings\<close>

text \<open>The points of a severity label as the specification tabulates them.\<close>

definition severity_points :: "string \<Rightarrow> int" where
  "severity_points s =
     (let l = str_lower s in
      if l = ''low'' then 20 else if l = ''medium'' then 100
      else if l = ''high'' then 500 else if l = ''critical'' then 2000 else 0)"

text \<open>Upper-casing, \<open>str.upper\<close>, on the UTF-8 bytes of a string, as far as the
  properties need it: an ASCII letter becomes its capital, the dotless i (U+0131, bytes
  C4 B1) becomes \<open>I\<close> and the long s (U+017F, bytes C5 BF) becomes \<open>S\<close>, as in
  Python. Every other byte is left as it is, which is what Python does to an ASCII
  character and not to every character outside ASCII; the properties apply
  \<open>str_upper\<close> to ASCII strings and to one string with a dotless i.\<close>

definition upper_char :: "char \<Rightarrow> char" where
  "upper_char c =
     (let n = (of_char c :: nat) in if 97 \<le> n \<and> n \<le> 122 then char_of (n - 32) else c)"

fun str_upper :: "string \<Rightarrow> string" where
  "str_upper (c # d # cs) =
     (if c = CHR 0xC4 \<and> d = CHR 0xB1 then CHR ''I'' # str_upper cs
      else if c = CHR 0xC5 \<and> d = CHR 0xBF then CHR ''S'' # str_upper cs
      else upper_char c # str_upper (d # cs))"
| "str_upper [c] = [upper_char c]"
| "str_upper [] = []"

text \<open>A string of ASCII characters only.\<close>

definition is_ascii :: "string \<Rightarrow> bool" where
  "is_ascii s = list_all (\<lambda>c. (of_char c :: nat) < 128) s"

text \<open>The word \<open>high\<close> written with a dotless i.\<close>

definition dotless_high :: string where
  "dotless_high = [CHR ''h'', CHR 0xC4, CHR 0xB1, CHR ''g'', CHR ''h'']"

fun is_str :: "json \<Rightarrow> bool" where
  "is_str (JStr s) = True"
| "is_str JNull = False"
| "is_str (JBool b) = False"
| "is_str (JNum n) = False"
| "is_str (JList xs) = False"
| "is_str (JDict kvs) = False"

definition absent_or_dict :: "pydict \<Rightarrow> string \<Rightarrow> bool" where
  "absent_or_dict kvs k = (case map_of kvs k of None \<Rightarrow> True | Some v \<Rightarrow> is_dict v)"

text \<open>\<open>details.<k>.severity\<close>, where \<open>details.<k>\<close> is a dict that has the key.\<close>

definition nested_severity :: "pydict \<Rightarrow> string \<Rightarrow> json option" where
  "nested_severity det k =
     (case map_of det k of Some (JDict c) \<Rightarrow> map_of c ''severity'' | _ \<Rightarrow> None)"

text \<open>The three places of the fallback chain, in its order.\<close>

definition severity_candidates :: "pydict \<Rightarrow> json option list" where
  "severity_candidates det =
     [map_of det ''severity'', nested_severity det ''cvss_v3_score'',
      nested_severity det ''cvss_v2_score'']"

text \<open>The chain in the specification's words: the first non-empty value wins, and the
  empty string stands for none.\<close>

definition first_nonempty :: "pydict \<Rightarrow> json" where
  "first_nonempty det =
     (case filter (\<lambda>c. c \<noteq> None \<and> c \<noteq> Some JNull \<and> c \<noteq> Some (JStr ''''))
             (severity_candidates det) of
        Some v # _ \<Rightarrow> v | _ \<Rightarrow> JStr '''')"

text \<open>The chain with the test the code makes: the first value that is present and not
  \<open>None\<close> wins.\<close>

definition first_not_none :: "pydict \<Rightarrow> json" where
  "first_not_none det =
     (case filter (\<lambda>c. c \<noteq> None \<and> c \<noteq> Some JNull) (severity_candidates det) of
        Some v # _ \<Rightarrow> v | _ \<Rightarrow> JStr '''')"

text \<open>The shape of a finding on which the loop body raises nothing: a dict with a dict
  under \<open>Vulnerability\<close>, whose \<open>Product\<close> is absent or a dict and whose \<open>Details\<close>,
  when a dict, has dicts (or nothing) under the two score keys and a severity that
  resolves to a string.\<close>

definition details_wf :: "json \<Rightarrow> bool" where
  "details_wf details =
     (case details of
        JDict det \<Rightarrow>
          absent_or_dict det ''cvss_v3_score'' \<and> absent_or_dict det ''cvss_v2_score'' \<and>
          nested_severity det ''cvss_v2_score'' \<noteq> Some JNull \<and> is_str (first_not_none det)
      | _ \<Rightarrow> True)"

definition finding_wf :: "json \<Rightarrow> bool" where
  "finding_wf vulnerability =
     (case vulnerability of
        JDict ev \<Rightarrow>
          (case map_of ev ''Vulnerability'' of
             Some (JDict vuln) \<Rightarrow>
               absent_or_dict vuln ''Product'' \<and>
               details_wf (case map_of vuln ''Details'' of None \<Rightarrow> JNull | Some d \<Rightarrow> d)
           | _ \<Rightarrow> False)
      | _ \<Rightarrow> False)"

text \<open>The label such a finding is scored with.\<close>

definition finding_label :: "json \<Rightarrow> json" where
  "finding_label vulnerability =
     (case vulnerability of
        JDict ev \<Rightarrow>
          (case map_of ev ''Vulnerability'' of
             Some (JDict vuln) \<Rightarrow>
               (case map_of vuln ''Details'' of
                  Some (JDict det) \<Rightarrow> first_not_none det
                | _ \<Rightarrow> JStr '''')
           | _ \<Rightarrow> JStr '''')
      | _ \<Rightarrow> JStr '''')"

text \<open>The points a finding of that shape adds to the score.\<close>

definition finding_points :: "json \<Rightarrow> int" where
  "finding_points vulnerability =
     (case finding_label vulnerability of JStr s \<Rightarrow> severity_points s | _ \<Rightarrow> 0)"

subsection \<open>Detections\<close>

text \<open>A detection as the service reports it, and one without its type.\<close>

definition detection_of :: "json \<Rightarrow> json" where
  "detection_of t = JDict [(''Detection'', JDict [(''Type'', t)])]"

definition lacks_type :: "json \<Rightarrow> bool" where
  "lacks_type detection =
     (case detection of
        JDict kv \<Rightarrow>
          (case map_of kv ''Detection'' of
             None \<Rightarrow> True
           | Some (JDict kv') \<Rightarrow> map_of kv' ''Type'' = None
           | Some _ \<Rightarrow> False)
      | _ \<Rightarrow> False)"

text \<open>A detection whose type is a string that, lowered, is the word \<open>w\<close>; and a
  detection whose type is a string at all.\<close>

definition detection_type_is :: "string \<Rightarrow> json \<Rightarrow> bool" where
  "detection_type_is w detection =
     (case detection of
        JDict kv \<Rightarrow>
          (case map_of kv ''Detection'' of
             Some (JDict kv') \<Rightarrow>
               (case map_of kv' ''Type'' of Some (JStr t) \<Rightarrow> str_lower t = w | _ \<Rightarrow> False)
           | _ \<Rightarrow> False)
      | _ \<Rightarrow> False)"

definition has_str_type :: "json \<Rightarrow> bool" where
  "has_str_type detection =
     (case detection of
        JDict kv \<Rightarrow>
          (case map_of kv ''Detection'' of
             Some (JDict kv') \<Rightarrow>
               (case map_of kv' ''Type'' of Some (JStr t) \<Rightarrow> True | _ \<Rightarrow> False)
           | _ \<Rightarrow> False)
      | _ \<Rightarrow> False)"

subsection \<open>Polling\<close>

text \<open>The events of \<open>k\<close> attempts: each a sleep of ten seconds, then the call.\<close>

definition attempts :: "nat \<Rightarrow> event list" where
  "attempts k = concat (replicate k [Sleep 10, GetAssessment])"

subsection \<open>Example data\<close>

text \<open>Reports, findings and endpoints to state the properties with: a report with
  both lists, a finding that carries a direct severity, and an endpoint whose every
  response is ready and has the given body.\<close>

definition report_of :: "json list \<Rightarrow> json list \<Rightarrow> ScanReport" where
  "report_of vs ds = [(''Vulnerabilities'', JList vs), (''Detections'', JList ds)]"

definition finding_of :: "json \<Rightarrow> json" where
  "finding_of severity =
     JDict [(''Vulnerability'',
       JDict [(''CVEID'', JStr ''CVE-1''), (''Details'', JDict [(''severity'', severity)])])]"

definition ready_with :: "ScanReport \<Rightarrow> nat \<Rightarrow> response" where
  "ready_with r k = \<lparr>resp_status_code = 200, resp_body = r\<rparr>"

section \<open>Auxiliary facts\<close>

lemma handler_eq: "handler e = 10"
  by (cases e) simp_all

lemma ebind_eq_Inr: "ebind m f = Inr y \<longleftrightarrow> (\<exists>x. m = Inr x \<and> f x = Inr y)"
  by (cases m) simp_all

lemma ebind_eq_Inl: "ebind m f = Inl e \<longleftrightarrow> m = Inl e \<or> (\<exists>x. m = Inr x \<and> f x = Inl e)"
  by (cases m) simp_all

lemma vuln_at_list:
  "map_of self ''Vulnerabilities'' = Some (JList vs) \<Longrightarrow> get_alerts_vuln self = vuln_loop vs 0"
  by (simp add: get_alerts_vuln_def vuln_str_key_1_def)

lemma malware_at_list:
  "map_of self ''Detections'' = Some (JList ds) \<Longrightarrow> get_alerts_malware self = malware_loop ds 0"
  by (simp add: get_alerts_malware_def detect_str_key_def)

lemma secrets_at_list:
  "map_of self ''Detections'' = Some (JList ds) \<Longrightarrow> get_alerts_secrets self = secrets_loop ds 0"
  by (simp add: get_alerts_secrets_def detect_str_key_def)

lemma misconfig_at_list:
  "map_of self ''Detections'' = Some (JList ds) \<Longrightarrow> get_alerts_misconfig self = misconfig_loop ds 0"
  by (simp add: get_alerts_misconfig_def detect_str_key_def)

lemma malware_loop_values: "malware_loop ds n = Inr c \<Longrightarrow> c = n \<or> c = 2"
  by (induction ds) (auto split: sum.splits if_splits)

lemma secrets_loop_values: "secrets_loop ds n = Inr c \<Longrightarrow> c = n \<or> c = 3"
  by (induction ds) (auto split: sum.splits if_splits)

lemma misconfig_loop_values: "misconfig_loop ds n = Inr c \<Longrightarrow> c = n \<or> c = 0"
  by (induction ds) (auto split: sum.splits if_splits)

lemma secrets_loop_found:
  "secrets_loop ds n = Inr c \<Longrightarrow> d \<in> set ds \<Longrightarrow> detection_type d = Inr type_secret \<Longrightarrow> c = 3"
  by (induction ds) (auto split: sum.splits if_splits)

lemma get_alerts_secrets_values: "get_alerts_secrets r = Inr c \<Longrightarrow> c = 0 \<or> c = 3"
  by (auto simp: get_alerts_secrets_def ebind_eq_Inr split: if_splits dest: secrets_loop_values)

lemma get_alerts_malware_values: "get_alerts_malware r = Inr c \<Longrightarrow> c = 0 \<or> c = 2"
  by (auto simp: get_alerts_malware_def ebind_eq_Inr split: if_splits dest: malware_loop_values)

lemma get_alerts_misconfig_zero: "get_alerts_misconfig r = Inr c \<Longrightarrow> c = 0"
  by (auto simp: get_alerts_misconfig_def ebind_eq_Inr split: if_splits dest: misconfig_loop_values)

lemma main_resolved:
  assumes "snd (get_scanreport falcon retry_count) = Inr r"
    and "get_alerts_vuln r = Inr v" and "get_alerts_secrets r = Inr s"
    and "get_alerts_malware r = Inr m" and "get_alerts_misconfig r = Inr c"
  shows "main falcon retry_count False None (Inr t) =
           (if s = 3 then 3 else if m = 2 then 2 else if t \<le> v then 1 else 0)"
  using assms by (simp add: main_def main_body_def)

lemma main_raises:
  "main_body falcon retry_count plugin export score = Inl e \<Longrightarrow>
   main falcon retry_count plugin export score = 10"
  by (simp add: main_def handler_eq)


lemma lower_upper_char: "lower_char (upper_char c) = lower_char c"
proof (cases "97 \<le> (of_char c :: nat) \<and> (of_char c :: nat) \<le> 122")
  case True
  define n where "n = (of_char c :: nat)"
  from True have n: "97 \<le> n" "n \<le> 122" by (simp_all add: n_def)
  then have "(n - 32) mod 256 = n - 32" by (intro mod_less) arith
  moreover from n have "65 \<le> n - 32" "n - 32 \<le> 90" "n - 32 + 32 = n" "\<not> n \<le> 90" by arith+
  moreover have "char_of n = c" by (simp add: n_def)
  ultimately show ?thesis
    by (simp add: lower_char_def upper_char_def Let_def flip: n_def)
next
  case False
  then have "upper_char c = c" unfolding upper_char_def Let_def by (rule if_not_P)
  then show ?thesis by simp
qed

lemma str_upper_ascii: "is_ascii s \<Longrightarrow> str_upper s = map upper_char s"
proof (induction s rule: str_upper.induct)
  case (1 c d cs)
  then have "(of_char c :: nat) < 128" by (simp add: is_ascii_def)
  then have "c \<noteq> CHR 0xC4" and "c \<noteq> CHR 0xC5" by auto
  with 1 show ?case by (simp add: is_ascii_def)
qed simp_all

lemma str_lower_upper: "is_ascii s \<Longrightarrow> str_lower (str_upper s) = str_lower s"
  by (simp add: str_lower_def str_upper_ascii lower_upper_char)

lemma severity_points_upper:
  "is_ascii s \<Longrightarrow> severity_points (str_upper s) = severity_points s"
  by (simp add: severity_points_def str_lower_upper)

lemma add_points_str: "add_points (JStr s) n = Inr (n + severity_points s)"
  by (simp add: add_points_def add_if_def severity_points_def Let_def)

lemma resolve_severity_dict:
  assumes "absent_or_dict det ''cvss_v3_score''" and "absent_or_dict det ''cvss_v2_score''"
    and "nested_severity det ''cvss_v2_score'' \<noteq> Some JNull"
  shows "resolve_severity (JDict det) = Inr (first_not_none det)"
  using assms
  by (auto simp: resolve_severity_def first_not_none_def severity_candidates_def
      absent_or_dict_def nested_severity_def split: option.splits json.splits)

lemma resolve_severity_not_dict: "\<not> is_dict details \<Longrightarrow> resolve_severity details = Inr (JStr '''')"
  by (simp add: resolve_severity_def)

lemma poll_exhausted:
  "(\<And>k. count \<le> k \<Longrightarrow> int k < retry_count \<Longrightarrow> resp_status_code (falcon k) \<noteq> 200) \<Longrightarrow>
   poll falcon retry_count count =
     (attempts (nat retry_count - count), Inl (RetryExhaustedError retry_count))"
proof (induction falcon retry_count count rule: poll.induct)
  case (1 falcon retry_count count)
  show ?case
  proof (cases "int count < retry_count")
    case True
    then have st: "resp_status_code (falcon count) \<noteq> 200" using "1.prems" by simp
    have "poll falcon retry_count (count + 1) =
        (attempts (nat retry_count - (count + 1)), Inl (RetryExhaustedError retry_count))"
      using "1.IH" [OF True refl st] "1.prems" by simp
    moreover from True have "nat retry_count - count = Suc (nat retry_count - (count + 1))"
      by arith
    ultimately show ?thesis
      using True st by (subst poll.simps) (simp add: attempts_def sleep_seconds_def)
  next
    case False
    then have "nat retry_count - count = 0" by arith
    with False show ?thesis by (subst poll.simps) (simp add: attempts_def)
  qed
qed

lemma poll_ready:
  "count \<le> k \<Longrightarrow> int k < retry_count \<Longrightarrow> resp_status_code (falcon k) = 200 \<Longrightarrow>
   (\<And>j. count \<le> j \<Longrightarrow> j < k \<Longrightarrow> resp_status_code (falcon j) \<noteq> 200) \<Longrightarrow>
   poll falcon retry_count count = (attempts (k - count + 1), Inr (resp_body (falcon k)))"
proof (induction falcon retry_count count rule: poll.induct)
  case (1 falcon retry_count count)
  from "1.prems" have lt: "int count < retry_count" by arith
  show ?case
  proof (cases "count = k")
    case True
    with lt "1.prems" show ?thesis
      by (subst poll.simps) (simp add: attempts_def sleep_seconds_def)
  next
    case False
    with "1.prems" have less: "count < k" by arith
    then have st: "resp_status_code (falcon count) \<noteq> 200" using "1.prems" by simp
    have "poll falcon retry_count (count + 1) =
        (attempts (k - (count + 1) + 1), Inr (resp_body (falcon k)))"
      using "1.IH" [OF lt refl st] "1.prems" less by simp
    moreover from less have "k - count + 1 = Suc (k - (count + 1) + 1)" by arith
    ultimately show ?thesis
      using lt st by (subst poll.simps) (simp add: attempts_def sleep_seconds_def)
  qed
qed

lemma detection_type_Inr_iff: "detection_type d = Inr w \<longleftrightarrow> detection_type_is w d"
  by (auto simp: detection_type_def detection_type_is_def ebind_eq_Inr
      split: json.splits option.splits)

lemma py_lower_no_KeyError: "py_lower x \<noteq> Inl KeyError"
  by (cases x) simp_all

lemma detection_type_KeyError_iff: "detection_type d = Inl KeyError \<longleftrightarrow> lacks_type d"
  by (auto simp: detection_type_def lacks_type_def ebind_eq_Inl py_lower_no_KeyError
      split: json.splits option.splits)

lemma has_str_type_iff: "has_str_type d \<longleftrightarrow> (\<exists>t. detection_type d = Inr t)"
  by (auto simp: detection_type_def has_str_type_def ebind_eq_Inr
      split: json.splits option.splits)

lemma detection_type_cases:
  assumes "lacks_type d \<or> has_str_type d"
  obtains "detection_type d = Inl KeyError" | t where "detection_type d = Inr t"
  using assms by (auto simp: detection_type_KeyError_iff has_str_type_iff)

lemma malware_loop_all:
  "\<forall>d \<in> set ds. lacks_type d \<or> has_str_type d \<Longrightarrow>
   malware_loop ds n = Inr (if \<exists>d \<in> set ds. detection_type_is ''malware'' d then 2 else n)"
proof (induction ds)
  case Nil
  then show ?case by simp
next
  case (Cons d ds)
  then have "lacks_type d \<or> has_str_type d" by simp
  then show ?case
  proof (cases rule: detection_type_cases)
    case 1
    then have "\<not> detection_type_is ''malware'' d"
      by (simp flip: detection_type_Inr_iff)
    with 1 Cons show ?thesis by simp
  next
    case (2 t)
    with Cons show ?thesis
      by (auto simp: type_malware_def simp flip: detection_type_Inr_iff)
  qed
qed

lemma malware_loop_first:
  "\<forall>x \<in> set pre. lacks_type x \<or> has_str_type x \<Longrightarrow> detection_type_is ''malware'' d \<Longrightarrow>
   malware_loop (pre @ d # post) n = Inr 2"
proof (induction pre)
  case Nil
  then show ?case by (simp add: type_malware_def flip: detection_type_Inr_iff)
next
  case (Cons x pre)
  then have "lacks_type x \<or> has_str_type x" by simp
  then show ?case
  proof (cases rule: detection_type_cases)
    case 1
    with Cons show ?thesis by simp
  next
    case (2 t)
    with Cons show ?thesis by simp
  qed
qed


lemma secrets_loop_all:
  "\<forall>d \<in> set ds. lacks_type d \<or> has_str_type d \<Longrightarrow>
   secrets_loop ds n = Inr (if \<exists>d \<in> set ds. detection_type_is ''secret'' d then 3 else n)"
proof (induction ds)
  case Nil
  then show ?case by simp
next
  case (Cons d ds)
  then have "lacks_type d \<or> has_str_type d" by simp
  then show ?case
  proof (cases rule: detection_type_cases)
    case 1
    then have "\<not> detection_type_is ''secret'' d"
      by (simp flip: detection_type_Inr_iff)
    with 1 Cons show ?thesis by simp
  next
    case (2 t)
    with Cons show ?thesis
      by (auto simp: type_secret_def simp flip: detection_type_Inr_iff)
  qed
qed

lemma secrets_loop_first:
  "\<forall>x \<in> set pre. lacks_type x \<or> has_str_type x \<Longrightarrow> detection_type_is ''secret'' d \<Longrightarrow>
   secrets_loop (pre @ d # post) n = Inr 3"
proof (induction pre)
  case Nil
  then show ?case by (simp add: type_secret_def flip: detection_type_Inr_iff)
next
  case (Cons x pre)
  then have "lacks_type x \<or> has_str_type x" by simp
  then show ?case
  proof (cases rule: detection_type_cases)
    case 1
    with Cons show ?thesis by simp
  next
    case (2 t)
    with Cons show ?thesis by simp
  qed
qed


lemma misconfig_loop_all:
  "\<forall>d \<in> set ds. lacks_type d \<or> has_str_type d \<Longrightarrow> misconfig_loop ds 0 = Inr 0"
proof (induction ds)
  case Nil
  then show ?case by simp
next
  case (Cons d ds)
  then have "lacks_type d \<or> has_str_type d" by simp
  then show ?case
  proof (cases rule: detection_type_cases)
    case 1
    with Cons show ?thesis by simp
  next
    case (2 t)
    with Cons show ?thesis by simp
  qed
qed

lemma misconfig_loop_first:
  "\<forall>x \<in> set pre. lacks_type x \<or> has_str_type x \<Longrightarrow>
   detection_type_is ''misconfiguration'' d \<or> detection_type_is ''cis'' d \<Longrightarrow>
   misconfig_loop (pre @ d # post) 0 = Inr 0"
proof (induction pre)
  case Nil
  then show ?case
    by (auto simp: type_misconfig_def type_cis_def simp flip: detection_type_Inr_iff)
next
  case (Cons x pre)
  then have "lacks_type x \<or> has_str_type x" by simp
  then show ?case
  proof (cases rule: detection_type_cases)
    case 1
    with Cons show ?thesis by simp
  next
    case (2 t)
    with Cons show ?thesis by simp
  qed
qed

lemma loops_skip:
  "lacks_type d \<Longrightarrow> malware_loop (d # ds) n = malware_loop ds n"
  "lacks_type d \<Longrightarrow> secrets_loop (d # ds) n = secrets_loop ds n"
  "lacks_type d \<Longrightarrow> misconfig_loop (d # ds) n = misconfig_loop ds n"
  by (simp_all flip: detection_type_KeyError_iff)

lemma get_scanreport_ready_with:
  "get_scanreport (ready_with r) n =
     (if 0 < n then ([Sleep 10, GetAssessment], Inr r) else ([], Inl (RetryExhaustedError n)))"
  unfolding get_scanreport_def
  by (subst poll.simps) (simp add: ready_with_def sleep_seconds_def)

lemma get_alerts_vuln_cong:
  "map_of r ''Vulnerabilities'' = map_of r' ''Vulnerabilities'' \<Longrightarrow>
   get_alerts_vuln r = get_alerts_vuln r'"
  by (simp add: get_alerts_vuln_def vuln_str_key_1_def)

lemma malware_loop_insert:
  "detection_type d = Inr t \<Longrightarrow> t \<noteq> type_malware \<Longrightarrow>
   malware_loop (pre @ d # post) n = malware_loop (pre @ post) n"
  by (induction pre) (simp_all split: sum.splits)

lemma secrets_loop_insert:
  "detection_type d = Inr t \<Longrightarrow> t \<noteq> type_secret \<Longrightarrow>
   secrets_loop (pre @ d # post) n = secrets_loop (pre @ post) n"
  by (induction pre) (simp_all split: sum.splits)

lemma misconfig_loop_insert:
  "detection_type d = Inr t \<Longrightarrow> t = type_misconfig \<or> t = type_cis \<Longrightarrow>
   misconfig_loop (pre @ post) 0 = Inr c \<Longrightarrow> misconfig_loop (pre @ d # post) 0 = Inr c"
  by (induction pre) (auto split: sum.splits if_splits dest: misconfig_loop_values)

lemma main_cong:
  assumes "get_alerts_vuln r' = get_alerts_vuln r" and "get_alerts_secrets r' = get_alerts_secrets r"
    and "get_alerts_malware r' = get_alerts_malware r"
    and "get_alerts_misconfig r' = get_alerts_misconfig r"
  shows "main (ready_with r') n False export score = main (ready_with r) n False export score"
  by (cases "0 < n") (simp_all add: main_def main_body_def get_scanreport_ready_with assms)

lemma py_get_absent_or_dict:
  "absent_or_dict kvs k \<Longrightarrow> \<exists>c. py_get (JDict kvs) k (JDict []) = Inr (JDict c)"
  by (cases "map_of kvs k") (auto simp: absent_or_dict_def elim: is_dict.elims)

lemma finding_severity_wf:
  assumes "finding_wf e"
  shows "finding_severity e = Inr (finding_label e)" and "is_str (finding_label e)"
proof -
  from assms obtain ev where e: "e = JDict ev"
    by (cases e) (simp_all add: finding_wf_def)
  from assms e obtain x where x: "map_of ev ''Vulnerability'' = Some x"
    by (cases "map_of ev ''Vulnerability''") (simp_all add: finding_wf_def)
  from assms e x obtain vuln where w: "map_of ev ''Vulnerability'' = Some (JDict vuln)"
    by (cases x) (simp_all add: finding_wf_def)
  from assms have p: "absent_or_dict vuln ''Product''"
    and d: "details_wf (case map_of vuln ''Details'' of None \<Rightarrow> JNull | Some d \<Rightarrow> d)"
    by (simp_all add: finding_wf_def e w)
  from p obtain c where c: "py_get (JDict vuln) ''Product'' (JDict []) = Inr (JDict c)"
    by (blast dest: py_get_absent_or_dict)
  let ?details = "case map_of vuln ''Details'' of None \<Rightarrow> JNull | Some d \<Rightarrow> d"
  have g: "py_get (JDict vuln) ''Details'' JNull = Inr ?details"
    by (simp split: option.splits)
  have l: "finding_label e = (case ?details of JDict det \<Rightarrow> first_not_none det | _ \<Rightarrow> JStr '''')"
    by (simp add: finding_label_def e w split: option.splits json.splits)
  have r: "resolve_severity ?details = Inr (finding_label e) \<and> is_str (finding_label e)"
  proof (cases "is_dict ?details")
    case True
    then obtain det where det: "?details = JDict det" by (auto elim: is_dict.elims)
    with d have "absent_or_dict det ''cvss_v3_score''" "absent_or_dict det ''cvss_v2_score''"
      "nested_severity det ''cvss_v2_score'' \<noteq> Some JNull" "is_str (first_not_none det)"
      by (simp_all add: details_wf_def)
    then show ?thesis unfolding l det by (simp add: resolve_severity_dict)
  next
    case False
    then have "finding_label e = JStr ''''"
      unfolding l by (cases ?details) simp_all
    with False show ?thesis by (simp add: resolve_severity_not_dict)
  qed
  obtain cve where cve: "py_get (JDict vuln) ''CVEID'' (JStr ''CVE-unknown'') = Inr cve"
    by (cases "map_of vuln ''CVEID''") simp_all
  obtain affects where a: "py_get (JDict c) ''PackageSource'' (JDict c) = Inr affects"
    by (cases "map_of c ''PackageSource''") simp_all
  have gi: "py_getitem e ''Vulnerability'' = Inr (JDict vuln)"
    by (simp add: e w)
  have "finding_severity e = Inr (finding_label e)"
    unfolding finding_severity_def
    by (simp add: gi g c r cve a del: py_get.simps)
  with r show "finding_severity e = Inr (finding_label e)" and "is_str (finding_label e)"
    by simp_all
qed

lemma vuln_loop_wf:
  "\<forall>e \<in> set vs. finding_wf e \<Longrightarrow>
   vuln_loop vs n =
     Inr (n + sum_list (map finding_points vs))"
proof (induction vs arbitrary: n)
  case Nil
  then show ?case by simp
next
  case (Cons e vs)
  then have wf: "finding_wf e" by simp
  then obtain s where s: "finding_label e = JStr s"
    using finding_severity_wf(2) [OF wf] by (auto elim: is_str.elims)
  with Cons finding_severity_wf(1) [OF wf] show ?case
    by (simp add: add_points_str finding_points_def)
qed



lemma finding_of_wf: "finding_wf (finding_of (JStr s))"
  by (simp add: finding_of_def finding_wf_def details_wf_def absent_or_dict_def
      nested_severity_def first_not_none_def severity_candidates_def)

lemma finding_of_label: "finding_label (finding_of (JStr s)) = JStr s"
  by (simp add: finding_of_def finding_label_def nested_severity_def first_not_none_def
      severity_candidates_def)

lemma finding_of_points: "finding_points (finding_of (JStr s)) = severity_points s"
  by (simp add: finding_points_def finding_of_label)

lemma vuln_at_report_of: "get_alerts_vuln (report_of vs ds) = vuln_loop vs 0"
  by (simp add: report_of_def vuln_at_list)

lemma finding_severity_eq:
  assumes w: "map_of ev ''Vulnerability'' = Some (JDict vuln)"
    and p: "absent_or_dict vuln ''Product''"
  shows "finding_severity (JDict ev) =
    resolve_severity (case map_of vuln ''Details'' of None \<Rightarrow> JNull | Some d \<Rightarrow> d)"
proof -
  from p obtain c where c: "py_get (JDict vuln) ''Product'' (JDict []) = Inr (JDict c)"
    by (blast dest: py_get_absent_or_dict)
  let ?details = "case map_of vuln ''Details'' of None \<Rightarrow> JNull | Some d \<Rightarrow> d"
  have g: "py_get (JDict vuln) ''Details'' JNull = Inr ?details"
    by (simp split: option.splits)
  obtain cve where cve: "py_get (JDict vuln) ''CVEID'' (JStr ''CVE-unknown'') = Inr cve"
    by (cases "map_of vuln ''CVEID''") simp_all
  obtain affects where a: "py_get (JDict c) ''PackageSource'' (JDict c) = Inr affects"
    by (cases "map_of c ''PackageSource''") simp_all
  have gi: "py_getitem (JDict ev) ''Vulnerability'' = Inr (JDict vuln)"
    by (simp add: w)
  show ?thesis
    unfolding finding_severity_def
    by (cases "resolve_severity ?details")
       (simp_all add: gi g c cve a del: py_get.simps py_getitem.simps)
qed

lemma main_priority_law:
  assumes "snd (get_scanreport falcon retry_count) = Inr r"
    and "get_alerts_vuln r = Inr v" and "get_alerts_secrets r = Inr s"
    and "get_alerts_malware r = Inr m" and "get_alerts_misconfig r = Inr c"
  shows "main falcon retry_count False None (Inr t) =
           (if s = enum_value Secrets then 3
            else if m = enum_value Malware then 2
            else if t \<le> v then 1 else 0)
       \<and> (s = 0 \<or> s = enum_value Secrets) \<and> (m = 0 \<or> m = enum_value Malware)
       \<and> (\<forall>ds. map_of r ''Detections'' = Some (JList ds)
              \<and> (\<exists>d \<in> set ds. detection_type_is ''secret'' d)
              \<and> (\<exists>d \<in> set ds. detection_type_is ''malware'' d)
            \<longrightarrow> main falcon retry_count False None (Inr t) = 3)
       \<and> (s = 0 \<and> m = 0 \<longrightarrow>
            main falcon retry_count False None (Inr v) = 1
          \<and> main falcon retry_count False None (Inr (v + 1)) = 0)"
proof -
  have law: "main falcon retry_count False None (Inr t') =
      (if s = 3 then 3 else if m = 2 then 2 else if t' \<le> v then 1 else 0)" for t'
    using assms by (rule main_resolved)
  have sv: "s = 0 \<or> s = 3" using assms(3) by (rule get_alerts_secrets_values)
  have mv: "m = 0 \<or> m = 2" using assms(4) by (rule get_alerts_malware_values)
  have both: "main falcon retry_count False None (Inr t) = 3"
    if "map_of r ''Detections'' = Some (JList ds)"
      and "d \<in> set ds" and "detection_type_is ''secret'' d" for ds d
  proof -
    from that(1) assms(3) have l: "secrets_loop ds 0 = Inr s" by (simp add: secrets_at_list)
    from that(3) have "detection_type d = Inr type_secret"
      by (simp add: detection_type_Inr_iff type_secret_def)
    with l that(2) have "s = 3" by (rule secrets_loop_found)
    then show ?thesis by (simp add: law)
  qed
  have c1: "main falcon retry_count False None (Inr t) =
      (if s = 3 then 3 else if m = 2 then 2 else if t \<le> v then 1 else 0)"
    by (rule law)
  have c4: "\<forall>ds. map_of r ''Detections'' = Some (JList ds)
              \<and> (\<exists>d \<in> set ds. detection_type_is ''secret'' d)
              \<and> (\<exists>d \<in> set ds. detection_type_is ''malware'' d)
            \<longrightarrow> main falcon retry_count False None (Inr t) = 3"
    using both by blast
  have c5: "s = 0 \<and> m = 0 \<longrightarrow>
            main falcon retry_count False None (Inr v) = 1
          \<and> main falcon retry_count False None (Inr (v + 1)) = 0"
    by (simp add: law)
  show ?thesis unfolding enum_value.simps using c1 sv mv c4 c5 by blast
qed

lemma main_scan_raises:
  assumes "snd (get_scanreport falcon retry_count) = Inr r"
    and "(\<exists>e. get_alerts_vuln r = Inl e) \<or> (\<exists>e. get_alerts_secrets r = Inl e)
       \<or> (\<exists>e. get_alerts_malware r = Inl e) \<or> (\<exists>e. get_alerts_misconfig r = Inl e)"
  shows "main falcon retry_count False export score = 10"
proof -
  have "\<exists>e. main_body falcon retry_count False export score = Inl e"
    using assms(2)
    by (cases export; cases "get_alerts_vuln r"; cases "get_alerts_secrets r";
        cases "get_alerts_malware r"; cases "get_alerts_misconfig r")
       (auto simp: main_body_def assms(1))
  then show ?thesis by (auto dest: main_raises)
qed

section \<open>The status resolver\<close>

text \<open>
  Claim C1, as the code has it. The resolver is reached only when all four scans have
  returned. A report that holds a secret and a malware detection, followed by a
  detection whose type is a number, makes the misconfiguration scan raise, and a report
  that holds both detections and no \<open>Vulnerabilities\<close> key makes the vulnerability scan
  raise: \<open>main\<close> exits with 10 on both, not with 3.
\<close>

theorem both_detections_counterexample:
  "detection_type_is ''secret'' (detection_of (JStr ''Secret''))
   \<and> detection_type_is ''malware'' (detection_of (JStr ''Malware''))
   \<and> get_alerts_secrets (report_of []
        [detection_of (JStr ''Secret''), detection_of (JStr ''Malware''),
         detection_of (JNum 5)]) = Inr 3
   \<and> main (ready_with (report_of []
        [detection_of (JStr ''Secret''), detection_of (JStr ''Malware''),
         detection_of (JNum 5)])) 100 False None (Inr 500) = 10
   \<and> main (ready_with
        [(''Detections'',
          JList [detection_of (JStr ''Secret''), detection_of (JStr ''Malware'')])])
        100 False None (Inr 500) = 10"
  by code_simp

text \<open>
  Claim C1, amended. When the report was fetched and all four scans returned without
  raising, \<open>main\<close> (run without \<open>--plugin\<close> and with an integer threshold) exits with
  exactly one status by strict priority: 3 (secrets) if the secrets scan returned 3,
  otherwise 2 (malware) if the malware scan returned 2, otherwise 1 if the score is at
  least the threshold, otherwise 0; the two scans return nothing but 0 and their code.
  On such a report whose detections hold both a secret and a malware detection the exit
  is 3; with no secrets and no malware, a threshold equal to the score exits with 1 and
  a threshold one above the score exits with 0. When one of the four scans raises,
  \<open>main\<close> exits with 10 whatever the other scans found.
\<close>

theorem status_resolver_priority:
  assumes "snd (get_scanreport falcon retry_count) = Inr r"
  shows "(\<forall>v s m c. get_alerts_vuln r = Inr v \<and> get_alerts_secrets r = Inr s
            \<and> get_alerts_malware r = Inr m \<and> get_alerts_misconfig r = Inr c \<longrightarrow>
          main falcon retry_count False None (Inr t) =
            (if s = enum_value Secrets then 3
             else if m = enum_value Malware then 2
             else if t \<le> v then 1 else 0)
          \<and> (s = 0 \<or> s = enum_value Secrets) \<and> (m = 0 \<or> m = enum_value Malware)
          \<and> (\<forall>ds. map_of r ''Detections'' = Some (JList ds)
                 \<and> (\<exists>d \<in> set ds. detection_type_is ''secret'' d)
                 \<and> (\<exists>d \<in> set ds. detection_type_is ''malware'' d)
               \<longrightarrow> main falcon retry_count False None (Inr t) = 3)
          \<and> (s = 0 \<and> m = 0 \<longrightarrow>
               main falcon retry_count False None (Inr v) = 1
             \<and> main falcon retry_count False None (Inr (v + 1)) = 0))
     \<and> ((\<exists>e. get_alerts_vuln r = Inl e) \<or> (\<exists>e. get_alerts_secrets r = Inl e)
          \<or> (\<exists>e. get_alerts_malware r = Inl e) \<or> (\<exists>e. get_alerts_misconfig r = Inl e)
        \<longrightarrow> main falcon retry_count False export score = 10)"
proof -
  have A: "main falcon retry_count False None (Inr t) =
            (if s = enum_value Secrets then 3
             else if m = enum_value Malware then 2
             else if t \<le> v then 1 else 0)
          \<and> (s = 0 \<or> s = enum_value Secrets) \<and> (m = 0 \<or> m = enum_value Malware)
          \<and> (\<forall>ds. map_of r ''Detections'' = Some (JList ds)
                 \<and> (\<exists>d \<in> set ds. detection_type_is ''secret'' d)
                 \<and> (\<exists>d \<in> set ds. detection_type_is ''malware'' d)
               \<longrightarrow> main falcon retry_count False None (Inr t) = 3)
          \<and> (s = 0 \<and> m = 0 \<longrightarrow>
               main falcon retry_count False None (Inr v) = 1
             \<and> main falcon retry_count False None (Inr (v + 1)) = 0)"
    if "get_alerts_vuln r = Inr v" and "get_alerts_secrets r = Inr s"
      and "get_alerts_malware r = Inr m" and "get_alerts_misconfig r = Inr c" for v s m c
    using assms that by (rule main_priority_law)
  have B: "main falcon retry_count False export score = 10"
    if "(\<exists>e. get_alerts_vuln r = Inl e) \<or> (\<exists>e. get_alerts_secrets r = Inl e)
          \<or> (\<exists>e. get_alerts_malware r = Inl e) \<or> (\<exists>e. get_alerts_misconfig r = Inl e)"
    using assms that by (rule main_scan_raises)
  from A B show ?thesis by blast
qed

theorem status_resolver_priority_witness:
  "main (ready_with (report_of [finding_of (JStr ''critical'')]
           [detection_of (JStr ''Malware''), detection_of (JStr ''Secret'')])) 1
      False None (Inr 500) = 3
   \<and> main (ready_with (report_of [finding_of (JStr ''critical'')]
           [detection_of (JStr ''Malware'')])) 1 False None (Inr 500) = 2
   \<and> main (ready_with (report_of [finding_of (JStr ''critical'')] [])) 1
        False None (Inr 2000) = 1
   \<and> main (ready_with (report_of [finding_of (JStr ''critical'')] [])) 1
        False None (Inr 2001) = 0
   \<and> main (ready_with (report_of [finding_of (JStr ''critical'')]
           [detection_of (JStr ''Secret''), detection_of (JNum 5)])) 1
        False None (Inr 500) = 10"
proof -
  let ?ds = "[detection_of (JStr ''Malware''), detection_of (JStr ''Secret'')]"
  let ?r1 = "report_of [finding_of (JStr ''critical'')] ?ds"
  let ?r2 = "report_of [finding_of (JStr ''critical'')] []"
  let ?r3 = "report_of [finding_of (JStr ''critical'')] [detection_of (JStr ''Malware'')]"
  let ?r4 = "report_of [finding_of (JStr ''critical'')]
           [detection_of (JStr ''Secret''), detection_of (JNum 5)]"
  have f1: "snd (get_scanreport (ready_with ?r1) 1) = Inr ?r1" by code_simp
  have v1: "get_alerts_vuln ?r1 = Inr 2000" by code_simp
  have s1: "get_alerts_secrets ?r1 = Inr 3" by code_simp
  have m1: "get_alerts_malware ?r1 = Inr 2" by code_simp
  have c1: "get_alerts_misconfig ?r1 = Inr 0" by code_simp
  have d1: "map_of ?r1 ''Detections'' = Some (JList ?ds)" by code_simp
  have t1: "\<exists>d \<in> set ?ds. detection_type_is ''secret'' d" by code_simp
  have t2: "\<exists>d \<in> set ?ds. detection_type_is ''malware'' d" by code_simp
  have A: "main (ready_with ?r1) 1 False None (Inr 500) = 3"
    using status_resolver_priority [OF f1, of 500] v1 s1 m1 c1 d1 t1 t2 by blast
  have f2: "snd (get_scanreport (ready_with ?r2) 1) = Inr ?r2" by code_simp
  have v2: "get_alerts_vuln ?r2 = Inr 2000" by code_simp
  have s2: "get_alerts_secrets ?r2 = Inr 0" by code_simp
  have m2: "get_alerts_malware ?r2 = Inr 0" by code_simp
  have c2: "get_alerts_misconfig ?r2 = Inr 0" by code_simp
  have "main (ready_with ?r2) 1 False None (Inr 2000) = 1
      \<and> main (ready_with ?r2) 1 False None (Inr (2000 + 1)) = 0"
    using status_resolver_priority [OF f2, of 0] v2 s2 m2 c2 by blast
  then have B: "main (ready_with ?r2) 1 False None (Inr 2000) = 1
      \<and> main (ready_with ?r2) 1 False None (Inr 2001) = 0" by simp
  have f3: "snd (get_scanreport (ready_with ?r3) 1) = Inr ?r3" by code_simp
  have v3: "get_alerts_vuln ?r3 = Inr 2000" by code_simp
  have s3: "get_alerts_secrets ?r3 = Inr 0" by code_simp
  have m3: "get_alerts_malware ?r3 = Inr 2" by code_simp
  have c3: "get_alerts_misconfig ?r3 = Inr 0" by code_simp
  have "main (ready_with ?r3) 1 False None (Inr 500) =
      (if (0::int) = enum_value Secrets then 3
       else if (2::int) = enum_value Malware then 2 else if (500::int) \<le> 2000 then 1 else 0)"
    using status_resolver_priority [OF f3, of 500] v3 s3 m3 c3 by blast
  then have C: "main (ready_with ?r3) 1 False None (Inr 500) = 2" by simp
  have f4: "snd (get_scanreport (ready_with ?r4) 1) = Inr ?r4" by code_simp
  have m4: "get_alerts_malware ?r4 = Inl AttributeError" by code_simp
  have D: "main (ready_with ?r4) 1 False None (Inr 500) = 10"
    using status_resolver_priority [OF f4, of 500 None "Inr 500"] m4 by blast
  from A B C D show ?thesis by blast
qed

section \<open>Absent and empty lists\<close>

text \<open>
  Claim C2, as the code has it. The scans read \<open>self["Vulnerabilities"]\<close> and
  \<open>self["Detections"]\<close>, and test the value against \<open>None\<close> only: on a report without
  the \<open>Vulnerabilities\<close> key the score is not 0 but a \<open>KeyError\<close>, on a report without
  the \<open>Detections\<close> key each detection scan raises \<open>KeyError\<close>, and \<open>main\<close> exits
  with 10.
\<close>

theorem absent_key_counterexample:
  "map_of [(''Detections'', JList [])] ''Vulnerabilities'' = None
   \<and> get_alerts_vuln [(''Detections'', JList [])] = Inl KeyError
   \<and> map_of [(''Vulnerabilities'', JList [])] ''Detections'' = None
   \<and> get_alerts_malware [(''Vulnerabilities'', JList [])] = Inl KeyError
   \<and> get_alerts_secrets [(''Vulnerabilities'', JList [])] = Inl KeyError
   \<and> get_alerts_misconfig [(''Vulnerabilities'', JList [])] = Inl KeyError
   \<and> main (ready_with []) 100 False None (Inr 500) = 10"
  by code_simp

text \<open>
  Claim C2, amended. For every report in which the \<open>Vulnerabilities\<close> key is present
  and holds \<open>null\<close> or the empty list, the score is 0; for every report in which the
  \<open>Detections\<close> key is present and holds \<open>null\<close> or the empty list, the three
  detection codes are 0. A scan whose key is absent raises \<open>KeyError\<close>, and \<open>main\<close>,
  having fetched a report without one of the two keys, exits with 10.
\<close>

theorem null_or_empty_is_zero_findings:
  "(map_of r ''Vulnerabilities'' = Some JNull \<or> map_of r ''Vulnerabilities'' = Some (JList [])
      \<longrightarrow> get_alerts_vuln r = Inr 0)
   \<and> (map_of r ''Detections'' = Some JNull \<or> map_of r ''Detections'' = Some (JList [])
      \<longrightarrow> get_alerts_malware r = Inr 0 \<and> get_alerts_secrets r = Inr 0
        \<and> get_alerts_misconfig r = Inr 0)
   \<and> (map_of r ''Vulnerabilities'' = None \<longrightarrow> get_alerts_vuln r = Inl KeyError)
   \<and> (map_of r ''Detections'' = None
      \<longrightarrow> get_alerts_malware r = Inl KeyError \<and> get_alerts_secrets r = Inl KeyError
        \<and> get_alerts_misconfig r = Inl KeyError)
   \<and> ((map_of r ''Vulnerabilities'' = None \<or> map_of r ''Detections'' = None)
        \<and> snd (get_scanreport falcon retry_count) = Inr r
      \<longrightarrow> main falcon retry_count False export score = 10)"
proof -
  have v0: "get_alerts_vuln r = Inr 0"
    if "map_of r ''Vulnerabilities'' = Some JNull \<or> map_of r ''Vulnerabilities'' = Some (JList [])"
    using that by (auto simp: get_alerts_vuln_def vuln_str_key_1_def)
  have d0: "get_alerts_malware r = Inr 0 \<and> get_alerts_secrets r = Inr 0
        \<and> get_alerts_misconfig r = Inr 0"
    if "map_of r ''Detections'' = Some JNull \<or> map_of r ''Detections'' = Some (JList [])"
    using that
    by (auto simp: get_alerts_malware_def get_alerts_secrets_def get_alerts_misconfig_def
        detect_str_key_def)
  have vk: "get_alerts_vuln r = Inl KeyError" if "map_of r ''Vulnerabilities'' = None"
    using that by (simp add: get_alerts_vuln_def vuln_str_key_1_def)
  have dk: "get_alerts_malware r = Inl KeyError \<and> get_alerts_secrets r = Inl KeyError
        \<and> get_alerts_misconfig r = Inl KeyError"
    if "map_of r ''Detections'' = None"
    using that
    by (simp add: get_alerts_malware_def get_alerts_secrets_def get_alerts_misconfig_def
        detect_str_key_def)
  have ex: "main falcon retry_count False export score = 10"
    if k: "map_of r ''Vulnerabilities'' = None \<or> map_of r ''Detections'' = None"
      and f: "snd (get_scanreport falcon retry_count) = Inr r"
  proof -
    from k have "(\<exists>e. get_alerts_vuln r = Inl e) \<or> get_alerts_secrets r = Inl KeyError"
      using vk dk by blast
    then have "\<exists>e. main_body falcon retry_count False export score = Inl e"
      by (cases export; cases "get_alerts_vuln r") (auto simp: main_body_def f)
    then show ?thesis by (auto dest: main_raises)
  qed
  from v0 d0 vk dk ex show ?thesis by blast
qed

theorem null_or_empty_is_zero_findings_witness:
  "get_alerts_vuln [(''Vulnerabilities'', JNull), (''Detections'', JList [])] = Inr 0
   \<and> get_alerts_malware [(''Vulnerabilities'', JNull), (''Detections'', JList [])] = Inr 0
   \<and> get_alerts_secrets [(''Vulnerabilities'', JNull), (''Detections'', JList [])] = Inr 0
   \<and> get_alerts_misconfig [(''Vulnerabilities'', JNull), (''Detections'', JList [])] = Inr 0
   \<and> get_alerts_vuln [(''ImageInfo'', JDict [])] = Inl KeyError
   \<and> get_alerts_malware [(''ImageInfo'', JDict [])] = Inl KeyError
   \<and> main (ready_with [(''ImageInfo'', JDict [])]) 100 False None (Inr 500) = 10"
proof -
  let ?a = "[(''Vulnerabilities'', JNull), (''Detections'', JList [])]"
  let ?b = "[(''ImageInfo'', JDict [])]"
  have a1: "map_of ?a ''Vulnerabilities'' = Some JNull" by code_simp
  have a2: "map_of ?a ''Detections'' = Some (JList [])" by code_simp
  have b1: "map_of ?b ''Vulnerabilities'' = None" by code_simp
  have b2: "map_of ?b ''Detections'' = None" by code_simp
  have b3: "snd (get_scanreport (ready_with ?b) 100) = Inr ?b" by code_simp
  have A: "get_alerts_vuln ?a = Inr 0 \<and> get_alerts_malware ?a = Inr 0
      \<and> get_alerts_secrets ?a = Inr 0 \<and> get_alerts_misconfig ?a = Inr 0"
    using null_or_empty_is_zero_findings [of ?a] a1 a2 by blast
  have B: "get_alerts_vuln ?b = Inl KeyError \<and> get_alerts_malware ?b = Inl KeyError
      \<and> main (ready_with ?b) 100 False None (Inr 500) = 10"
    using null_or_empty_is_zero_findings [of ?b "ready_with ?b" 100 None "Inr 500"] b1 b2 b3
    by blast
  from A B show ?thesis by blast
qed

section \<open>The severity fallback chain\<close>

text \<open>
  Claim C3, as the code has it. The two tests of the chain are \<open>severity is None\<close>, not
  tests for emptiness. A finding whose direct severity is the empty string and whose
  \<open>cvss_v3_score.severity\<close> is \<open>high\<close> resolves to \<open>high\<close> when the first non-empty
  value wins, and would score 500; the code stops at the empty string and scores 0.
\<close>

theorem first_nonempty_counterexample:
  "first_nonempty
      [(''severity'', JStr ''''), (''cvss_v3_score'', JDict [(''severity'', JStr ''high'')])]
     = JStr ''high''
   \<and> resolve_severity (JDict
      [(''severity'', JStr ''''), (''cvss_v3_score'', JDict [(''severity'', JStr ''high'')])])
     = Inr (JStr '''')
   \<and> get_alerts_vuln (report_of
      [JDict [(''Vulnerability'', JDict [(''Details'', JDict
         [(''severity'', JStr ''''),
          (''cvss_v3_score'', JDict [(''severity'', JStr ''high'')])])])]] []) = Inr 0"
  by code_simp

text \<open>
  Claim C3, amended. The tests of the chain are for \<open>None\<close>. For \<open>Details\<close> that is a
  dict whose \<open>cvss_v3_score\<close> and \<open>cvss_v2_score\<close> are each absent or a dict and
  whose \<open>cvss_v2_score.severity\<close> is not \<open>null\<close>, the severity is the first value
  that is present and not \<open>null\<close> among \<open>details.severity\<close>,
  \<open>details.cvss_v3_score.severity\<close> and \<open>details.cvss_v2_score.severity\<close>, in this
  order, and the empty string if there is none; an empty string that is present is such
  a value and ends the chain. Whatever the score entries are, a direct severity that
  is present and not \<open>null\<close> is the severity; and when the direct severity is absent
  or \<open>null\<close> and \<open>cvss_v3_score\<close> is a dict whose severity is present and not
  \<open>null\<close>, that one is the severity. \<open>Details\<close> that is no dict gives the empty
  string. In particular a finding that is a dict with a dict under \<open>Vulnerability\<close>,
  whose \<open>Product\<close> is absent or a dict, whose \<open>Details\<close> is a dict without a direct
  severity and whose \<open>cvss_v3_score\<close> is a dict with the severity \<open>high\<close>, adds 500
  to the score.
\<close>

theorem severity_fallback_chain:
  "(absent_or_dict det ''cvss_v3_score'' \<and> absent_or_dict det ''cvss_v2_score''
      \<and> nested_severity det ''cvss_v2_score'' \<noteq> Some JNull
     \<longrightarrow> resolve_severity (JDict det) = Inr (first_not_none det))
   \<and> (\<forall>v. map_of det ''severity'' = Some v \<and> v \<noteq> JNull \<longrightarrow>
         resolve_severity (JDict det) = Inr v)
   \<and> (\<forall>c3 v. (map_of det ''severity'' = None \<or> map_of det ''severity'' = Some JNull)
         \<and> map_of det ''cvss_v3_score'' = Some (JDict c3)
         \<and> map_of c3 ''severity'' = Some v \<and> v \<noteq> JNull
       \<longrightarrow> resolve_severity (JDict det) = Inr v)
   \<and> (\<not> is_dict details \<longrightarrow> resolve_severity details = Inr (JStr ''''))
   \<and> (\<forall>ev vuln c3 rest n.
         map_of ev ''Vulnerability'' = Some (JDict vuln)
         \<and> absent_or_dict vuln ''Product''
         \<and> map_of vuln ''Details'' = Some (JDict det)
         \<and> map_of det ''severity'' = None
         \<and> map_of det ''cvss_v3_score'' = Some (JDict c3)
         \<and> map_of c3 ''severity'' = Some (JStr ''high'')
       \<longrightarrow> vuln_loop (JDict ev # rest) n = vuln_loop rest (n + 500))"
proof -
  have chain: "resolve_severity (JDict det) = Inr (first_not_none det)"
    if "absent_or_dict det ''cvss_v3_score''" and "absent_or_dict det ''cvss_v2_score''"
      and "nested_severity det ''cvss_v2_score'' \<noteq> Some JNull"
    using that by (rule resolve_severity_dict)
  have direct: "resolve_severity (JDict det) = Inr v"
    if "map_of det ''severity'' = Some v" and "v \<noteq> JNull" for v
    using that by (simp add: resolve_severity_def)
  have v3: "resolve_severity (JDict det) = Inr v"
    if "map_of det ''severity'' = None \<or> map_of det ''severity'' = Some JNull"
      and "map_of det ''cvss_v3_score'' = Some (JDict c3)"
      and "map_of c3 ''severity'' = Some v" and "v \<noteq> JNull" for c3 v
    using that by (auto simp: resolve_severity_def)
  have nodict: "resolve_severity details = Inr (JStr '''')" if "\<not> is_dict details"
    using that by (rule resolve_severity_not_dict)
  have high: "vuln_loop (JDict ev # rest) n = vuln_loop rest (n + 500)"
    if w: "map_of ev ''Vulnerability'' = Some (JDict vuln)"
      and p: "absent_or_dict vuln ''Product''"
      and d: "map_of vuln ''Details'' = Some (JDict det)"
      and s: "map_of det ''severity'' = None"
      and c: "map_of det ''cvss_v3_score'' = Some (JDict c3)"
      and h: "map_of c3 ''severity'' = Some (JStr ''high'')"
    for ev vuln c3 rest n
  proof -
    have "resolve_severity (JDict det) = Inr (JStr ''high'')"
      using s c h by (intro v3) simp_all
    then have "finding_severity (JDict ev) = Inr (JStr ''high'')"
      by (simp add: finding_severity_eq [OF w p] d)
    moreover have "severity_points ''high'' = 500" by code_simp
    ultimately show ?thesis by (simp add: add_points_str)
  qed
  from chain direct v3 nodict high show ?thesis by blast
qed

theorem severity_fallback_chain_witness:
  "resolve_severity (JDict
      [(''severity'', JNull), (''cvss_v2_score'', JDict [(''severity'', JStr ''LOW'')])])
     = Inr (JStr ''LOW'')
   \<and> resolve_severity (JDict
      [(''severity'', JStr ''medium''), (''cvss_v3_score'', JNum 9)]) = Inr (JStr ''medium'')
   \<and> resolve_severity (JDict
      [(''severity'', JNull), (''cvss_v3_score'', JDict [(''severity'', JStr ''critical'')])])
     = Inr (JStr ''critical'')
   \<and> resolve_severity (JList []) = Inr (JStr '''')
   \<and> vuln_loop [JDict [(''Vulnerability'', JDict
        [(''CVEID'', JStr ''CVE-3''),
         (''Details'', JDict [(''cvss_v3_score'', JDict [(''severity'', JStr ''high'')])])])]] 0
     = Inr 500"
proof -
  let ?a = "[(''severity'', JNull), (''cvss_v2_score'', JDict [(''severity'', JStr ''LOW'')])]"
  have a1: "absent_or_dict ?a ''cvss_v3_score''" by code_simp
  have a2: "absent_or_dict ?a ''cvss_v2_score''" by code_simp
  have a3: "nested_severity ?a ''cvss_v2_score'' \<noteq> Some JNull" by code_simp
  have a4: "first_not_none ?a = JStr ''LOW''" by code_simp
  have A: "resolve_severity (JDict ?a) = Inr (JStr ''LOW'')"
    using severity_fallback_chain [of ?a] a1 a2 a3 a4 by simp
  let ?b = "[(''severity'', JStr ''medium''), (''cvss_v3_score'', JNum 9)]"
  have b1: "map_of ?b ''severity'' = Some (JStr ''medium'')" by code_simp
  have B: "resolve_severity (JDict ?b) = Inr (JStr ''medium'')"
    using severity_fallback_chain [of ?b] b1 by blast
  let ?c3 = "[(''severity'', JStr ''critical'')]"
  let ?c = "[(''severity'', JNull), (''cvss_v3_score'', JDict ?c3)]"
  have c1: "map_of ?c ''severity'' = Some JNull" by code_simp
  have c2: "map_of ?c ''cvss_v3_score'' = Some (JDict ?c3)" by code_simp
  have c3: "map_of ?c3 ''severity'' = Some (JStr ''critical'')" by code_simp
  have C: "resolve_severity (JDict ?c) = Inr (JStr ''critical'')"
    using severity_fallback_chain [of ?c] c1 c2 c3 by blast
  have d1: "\<not> is_dict (JList [])" by simp
  have D: "resolve_severity (JList []) = Inr (JStr '''')"
    using severity_fallback_chain [of "[]" "JList []"] d1 by blast
  let ?h3 = "[(''severity'', JStr ''high'')]"
  let ?det = "[(''cvss_v3_score'', JDict ?h3)]"
  let ?vuln = "[(''CVEID'', JStr ''CVE-3''), (''Details'', JDict ?det)]"
  let ?ev = "[(''Vulnerability'', JDict ?vuln)]"
  have e1: "map_of ?ev ''Vulnerability'' = Some (JDict ?vuln)" by code_simp
  have e2: "absent_or_dict ?vuln ''Product''" by code_simp
  have e3: "map_of ?vuln ''Details'' = Some (JDict ?det)" by code_simp
  have e4: "map_of ?det ''severity'' = None" by code_simp
  have e5: "map_of ?det ''cvss_v3_score'' = Some (JDict ?h3)" by code_simp
  have e6: "map_of ?h3 ''severity'' = Some (JStr ''high'')" by code_simp
  have "vuln_loop (JDict ?ev # []) 0 = vuln_loop [] (0 + 500)"
    using severity_fallback_chain [of ?det] e1 e2 e3 e4 e5 e6 by blast
  then have E: "vuln_loop [JDict ?ev] 0 = Inr 500" by simp
  from A B C D E show ?thesis by blast
qed

section \<open>The vulnerability score\<close>

text \<open>
  Claim C4, as the code has it. The case mapping is Python's, on Unicode strings: the
  word \<open>high\<close> written with a dotless i does not lower to \<open>high\<close> and scores 0,
  while its upper-cased form is \<open>HIGH\<close> and scores 500, so the score with a severity
  and the score with the severity upper-cased differ. And the score is the sum of the
  points only where the loop body raises nothing: a \<open>high\<close> finding whose \<open>Product\<close>
  is a string raises \<open>AttributeError\<close>.
\<close>

theorem uppercase_score_counterexample:
  "str_upper dotless_high = ''HIGH''
   \<and> get_alerts_vuln (report_of [finding_of (JStr dotless_high)] []) = Inr 0
   \<and> get_alerts_vuln (report_of [finding_of (JStr (str_upper dotless_high))] []) = Inr 500
   \<and> get_alerts_vuln (report_of
        [JDict [(''Vulnerability'',
           JDict [(''Details'', JDict [(''severity'', JStr ''high'')]),
                  (''Product'', JStr ''openssl'')])]] []) = Inl AttributeError"
  by code_simp

text \<open>
  Claim C4, amended. On a report whose \<open>Vulnerabilities\<close> is a list of well-formed
  findings (dicts with a dict under \<open>Vulnerability\<close>, a \<open>Product\<close> that is absent or a
  dict, and \<open>Details\<close> that either is no dict or has score entries that are absent or
  dicts, a \<open>cvss_v2_score.severity\<close> that is not \<open>null\<close> and a string as its first
  severity that is present and not \<open>null\<close>) the score is the sum over the findings of
  the points of the resolved label, looked up on the lowered label: 20 for \<open>low\<close>, 100
  for \<open>medium\<close>, 500 for \<open>high\<close>, 2000 for \<open>critical\<close> and 0 for any other string,
  the empty one included. A report of findings that carry a CVE id and the direct
  severities \<open>ss\<close>, any strings, scores the sum of their points, and scores the same
  with every severity upper-cased when the severities are ASCII strings. The sum has no
  cap: \<open>n\<close> critical findings score \<open>2000 * n\<close>.
\<close>

theorem vulnerability_score_is_sum:
  "(map_of r ''Vulnerabilities'' = Some (JList vs) \<and> (\<forall>e \<in> set vs. finding_wf e) \<longrightarrow>
      get_alerts_vuln r = Inr (sum_list (map finding_points vs)))
   \<and> get_alerts_vuln (report_of (map (\<lambda>s. finding_of (JStr s)) ss) ds)
       = Inr (sum_list (map severity_points ss))
   \<and> ((\<forall>s \<in> set ss. is_ascii s) \<longrightarrow>
       get_alerts_vuln (report_of (map (\<lambda>s. finding_of (JStr (str_upper s))) ss) ds)
       = get_alerts_vuln (report_of (map (\<lambda>s. finding_of (JStr s)) ss) ds))
   \<and> severity_points s =
       (if str_lower s = ''low'' then 20 else if str_lower s = ''medium'' then 100
        else if str_lower s = ''high'' then 500 else if str_lower s = ''critical'' then 2000
        else 0)
   \<and> (is_ascii s \<longrightarrow> severity_points (str_upper s) = severity_points s)
   \<and> get_alerts_vuln (report_of (replicate n (finding_of (JStr ''critical''))) ds)
       = Inr (2000 * int n)"
proof -
  have general: "get_alerts_vuln r = Inr (sum_list (map finding_points vs))"
    if "map_of r ''Vulnerabilities'' = Some (JList vs)" and "\<forall>e \<in> set vs. finding_wf e"
    using that by (simp add: vuln_at_list vuln_loop_wf)
  have direct: "get_alerts_vuln (report_of (map (\<lambda>s. finding_of (JStr s)) ss') ds)
       = Inr (sum_list (map severity_points ss'))" for ss'
  proof -
    have "\<forall>e \<in> set (map (\<lambda>s. finding_of (JStr s)) ss'). finding_wf e"
      by (simp add: finding_of_wf)
    then show ?thesis
      by (simp add: vuln_at_report_of vuln_loop_wf comp_def finding_of_points)
  qed
  have upper: "get_alerts_vuln (report_of (map (\<lambda>s. finding_of (JStr (str_upper s))) ss) ds)
       = get_alerts_vuln (report_of (map (\<lambda>s. finding_of (JStr s)) ss) ds)"
    if a: "\<forall>s \<in> set ss. is_ascii s"
  proof -
    from a have "sum_list (map severity_points (map str_upper ss))
        = sum_list (map severity_points ss)"
      by (induction ss) (simp_all add: severity_points_upper)
    moreover have "map (\<lambda>s. finding_of (JStr s)) (map str_upper ss)
        = map (\<lambda>s. finding_of (JStr (str_upper s))) ss"
      by (simp add: comp_def)
    ultimately show ?thesis
      using direct [of "map str_upper ss"] direct [of ss] by (simp only:)
  qed
  have table: "severity_points s =
       (if str_lower s = ''low'' then 20 else if str_lower s = ''medium'' then 100
        else if str_lower s = ''high'' then 500 else if str_lower s = ''critical'' then 2000
        else 0)"
    by (simp add: severity_points_def Let_def)
  have up: "severity_points (str_upper s) = severity_points s" if "is_ascii s"
    using that by (rule severity_points_upper)
  have crit: "severity_points ''critical'' = 2000" by code_simp
  have uncapped: "get_alerts_vuln (report_of (replicate n (finding_of (JStr ''critical''))) ds)
       = Inr (2000 * int n)"
    using direct [of "replicate n ''critical''"]
    by (simp add: map_replicate_const crit sum_list_replicate)
  from general direct [of ss] upper table up uncapped
  show ?thesis by blast
qed

theorem vulnerability_score_is_sum_witness:
  "get_alerts_vuln (report_of
      [finding_of (JStr ''HIGH''),
       JDict [(''Vulnerability'', JDict [(''Details'',
          JDict [(''cvss_v3_score'', JDict [(''severity'', JStr ''Low'')])])])],
       JDict [(''Vulnerability'', JDict [(''CVEID'', JStr ''CVE-2'')])],
       finding_of (JStr ''garbage''), finding_of (JStr '''')] []) = Inr 520
   \<and> get_alerts_vuln (report_of
        (map (\<lambda>s. finding_of (JStr (str_upper s))) [''high'', ''Medium'', ''n/a'']) [])
     = get_alerts_vuln (report_of
        (map (\<lambda>s. finding_of (JStr s)) [''high'', ''Medium'', ''n/a'']) [])
   \<and> severity_points (str_upper ''critical'') = severity_points ''critical''"
proof -
  let ?vs = "[finding_of (JStr ''HIGH''),
       JDict [(''Vulnerability'', JDict [(''Details'',
          JDict [(''cvss_v3_score'', JDict [(''severity'', JStr ''Low'')])])])],
       JDict [(''Vulnerability'', JDict [(''CVEID'', JStr ''CVE-2'')])],
       finding_of (JStr ''garbage''), finding_of (JStr '''')]"
  have h1: "map_of (report_of ?vs []) ''Vulnerabilities'' = Some (JList ?vs)" by code_simp
  have h2: "\<forall>e \<in> set ?vs. finding_wf e" by code_simp
  have h3: "sum_list (map finding_points ?vs) = 520" by code_simp
  from vulnerability_score_is_sum [of "report_of ?vs []" ?vs] h1 h2
  have "get_alerts_vuln (report_of ?vs []) = Inr (sum_list (map finding_points ?vs))"
    by blast
  then have A: "get_alerts_vuln (report_of ?vs []) = Inr 520" by (simp only: h3)
  let ?ss = "[''high'', ''Medium'', ''n/a'']"
  have h4: "\<forall>s \<in> set ?ss. is_ascii s" by code_simp
  have B: "get_alerts_vuln (report_of (map (\<lambda>s. finding_of (JStr (str_upper s))) ?ss) [])
     = get_alerts_vuln (report_of (map (\<lambda>s. finding_of (JStr s)) ?ss) [])"
    using vulnerability_score_is_sum [of "[]" "[]" ?ss "[]"] h4 by blast
  have h5: "is_ascii ''critical''" by code_simp
  have C: "severity_points (str_upper ''critical'') = severity_points ''critical''"
    using vulnerability_score_is_sum [of "[]" "[]" "[]" "[]" "''critical''"] h5 by blast
  from A B C show ?thesis by blast
qed

section \<open>The misconfiguration scan\<close>

text \<open>
  Claim C5, as the code has it. \<open>get_alerts_misconfig\<close> sets no flag: a match assigns
  \<open>ScanStatusCode.Success.value\<close>, which is 0, the value \<open>det_code\<close> starts with. The
  claim that the flag is true exactly when some detection is a misconfiguration fails on
  a report with one \<open>cis\<close> detection: the scan returns 0 there, as it does on a report
  with no detection at all.
\<close>

theorem misconfig_flag_counterexample:
  "detection_type_is ''cis'' (detection_of (JStr ''cis''))
   \<and> get_alerts_misconfig (report_of [] [detection_of (JStr ''cis'')]) = Inr 0
   \<and> get_alerts_misconfig (report_of [] []) = Inr 0"
  by code_simp

text \<open>
  Claim C5, amended. \<open>get_alerts_misconfig\<close> sets no flag: whenever it returns, it
  returns 0, whether or not some detection's type, lowered, is \<open>misconfiguration\<close> or
  \<open>cis\<close>. A detection lacks its type field when it is a dict without the
  \<open>Detection\<close> key, or with a dict under \<open>Detection\<close> that has no \<open>Type\<close> key.
  On a report whose \<open>Detections\<close> is a list the scan returns 0 when every detection
  lacks its type field or has a string type; it returns 0 when the detections before a
  match lack their type field or have a string type, whatever follows the match (the
  scan stops at the first match); and a first detection that lacks its type field is
  passed over: the scan gives what it gives on the rest of the list. Detections of any
  other shape are not covered.
\<close>

theorem misconfig_scan_returns_zero:
  "map_of r ''Detections'' = Some (JList ds) \<longrightarrow>
     ((\<forall>d \<in> set ds. lacks_type d \<or> has_str_type d) \<longrightarrow> get_alerts_misconfig r = Inr 0)
   \<and> (\<forall>pre d post. ds = pre @ d # post
          \<and> (\<forall>x \<in> set pre. lacks_type x \<or> has_str_type x)
          \<and> (detection_type_is ''misconfiguration'' d \<or> detection_type_is ''cis'' d)
        \<longrightarrow> get_alerts_misconfig r = Inr 0)
   \<and> (\<forall>d rest. ds = d # rest \<and> lacks_type d \<longrightarrow>
        get_alerts_misconfig r = misconfig_loop rest 0)
   \<and> (\<forall>c. get_alerts_misconfig r = Inr c \<longrightarrow> c = 0)"
proof (intro impI)
  assume D: "map_of r ''Detections'' = Some (JList ds)"
  have c: "get_alerts_misconfig r = misconfig_loop ds 0" using D by (rule misconfig_at_list)
  have all: "get_alerts_misconfig r = Inr 0"
    if "\<forall>d \<in> set ds. lacks_type d \<or> has_str_type d"
    using that by (simp add: c misconfig_loop_all)
  have first: "get_alerts_misconfig r = Inr 0"
    if "ds = pre @ d # post" and "\<forall>x \<in> set pre. lacks_type x \<or> has_str_type x"
      and "detection_type_is ''misconfiguration'' d \<or> detection_type_is ''cis'' d"
    for pre d post
    using that by (simp add: c misconfig_loop_first)
  have skip: "get_alerts_misconfig r = misconfig_loop rest 0"
    if "ds = d # rest" and "lacks_type d" for d rest
    unfolding c that(1) by (simp only: loops_skip [OF that(2)])
  have zero: "c = 0" if "get_alerts_misconfig r = Inr c" for c
    using that by (rule get_alerts_misconfig_zero)
  from all first skip zero
  show "((\<forall>d \<in> set ds. lacks_type d \<or> has_str_type d) \<longrightarrow> get_alerts_misconfig r = Inr 0)
   \<and> (\<forall>pre d post. ds = pre @ d # post
          \<and> (\<forall>x \<in> set pre. lacks_type x \<or> has_str_type x)
          \<and> (detection_type_is ''misconfiguration'' d \<or> detection_type_is ''cis'' d)
        \<longrightarrow> get_alerts_misconfig r = Inr 0)
   \<and> (\<forall>d rest. ds = d # rest \<and> lacks_type d \<longrightarrow>
        get_alerts_misconfig r = misconfig_loop rest 0)
   \<and> (\<forall>c. get_alerts_misconfig r = Inr c \<longrightarrow> c = 0)"
    by blast
qed

theorem misconfig_scan_returns_zero_witness:
  "get_alerts_misconfig (report_of []
      [JDict [], detection_of (JStr ''malware''), detection_of (JStr ''Misconfiguration'')])
     = Inr 0
   \<and> get_alerts_misconfig (report_of []
      [JDict [], detection_of (JStr ''CIS''), detection_of (JNum 5)]) = Inr 0
   \<and> get_alerts_misconfig (report_of [] [JDict [], detection_of (JStr ''malware'')])
       = misconfig_loop [detection_of (JStr ''malware'')] 0"
proof -
  let ?a = "[JDict [], detection_of (JStr ''malware''),
      detection_of (JStr ''Misconfiguration'')]"
  have a1: "map_of (report_of [] ?a) ''Detections'' = Some (JList ?a)" by code_simp
  have a2: "\<forall>d \<in> set ?a. lacks_type d \<or> has_str_type d" by code_simp
  have A: "get_alerts_misconfig (report_of [] ?a) = Inr 0"
    using misconfig_scan_returns_zero [of "report_of [] ?a" ?a] a1 a2 by blast
  let ?b = "[JDict [], detection_of (JStr ''CIS''), detection_of (JNum 5)]"
  have b1: "map_of (report_of [] ?b) ''Detections'' = Some (JList ?b)" by code_simp
  have b2: "?b = [JDict []] @ detection_of (JStr ''CIS'') # [detection_of (JNum 5)]"
    by simp
  have b3: "\<forall>x \<in> set [JDict []]. lacks_type x \<or> has_str_type x" by code_simp
  have b4: "detection_type_is ''cis'' (detection_of (JStr ''CIS''))" by code_simp
  have B: "get_alerts_misconfig (report_of [] ?b) = Inr 0"
    using misconfig_scan_returns_zero [of "report_of [] ?b" ?b] b1 b2 b3 b4 by blast
  let ?c = "[JDict [], detection_of (JStr ''malware'')]"
  have c1: "map_of (report_of [] ?c) ''Detections'' = Some (JList ?c)" by code_simp
  have c2: "lacks_type (JDict [])" by code_simp
  have C: "get_alerts_misconfig (report_of [] ?c)
      = misconfig_loop [detection_of (JStr ''malware'')] 0"
    using misconfig_scan_returns_zero [of "report_of [] ?c" ?c] c1 c2 by blast
  from A B C show ?thesis by blast
qed

section \<open>The malware and secrets scans\<close>

text \<open>
  Claim C6, as the code has it. A scan looks at the detections in their order and
  catches \<open>KeyError\<close> only. With a detection whose type is a number before it, a
  detection whose type is \<open>malware\<close> (or \<open>secret\<close>) is never reached: the scan raises
  \<open>AttributeError\<close> and sets no flag. And a detection whose \<open>Detection\<close> is \<open>null\<close>
  has no type field, yet is not skipped: the scan raises \<open>TypeError\<close>.
\<close>

theorem detection_flags_counterexample:
  "detection_type_is ''malware'' (detection_of (JStr ''malware''))
   \<and> get_alerts_malware (report_of []
        [detection_of (JNum 5), detection_of (JStr ''malware'')]) = Inl AttributeError
   \<and> detection_type_is ''secret'' (detection_of (JStr ''secret''))
   \<and> get_alerts_secrets (report_of []
        [detection_of (JNum 5), detection_of (JStr ''secret'')]) = Inl AttributeError
   \<and> get_alerts_malware (report_of []
        [JDict [(''Detection'', JNull)], detection_of (JStr ''malware'')]) = Inl TypeError
   \<and> get_alerts_secrets (report_of []
        [JDict [(''Detection'', JNull)], detection_of (JStr ''secret'')]) = Inl TypeError"
  by code_simp

text \<open>
  Claim C6, amended. A detection lacks its type field when it is a dict without the
  \<open>Detection\<close> key, or with a dict under \<open>Detection\<close> that has no \<open>Type\<close> key. On a
  report whose \<open>Detections\<close> is a list in which every detection either lacks its type
  field or has a string type, the malware scan returns 2 if and only if some
  detection's type, lowered, is \<open>malware\<close>, and 0 otherwise; the secrets scan returns
  3 if and only if some detection's type, lowered, is \<open>secret\<close>, and 0 otherwise.
  Each scan stops at its first match: when the detections before a match lack their
  type field or have a string type, the scan returns its code whatever follows the
  match. A first detection that lacks its type field is passed over: the scan gives
  what it gives on the rest of the list. Whenever a scan returns, the result is its code
  or 0, never a count. Detections of any other shape are not covered.
\<close>

theorem malware_and_secrets_flags:
  "map_of r ''Detections'' = Some (JList ds) \<longrightarrow>
     ((\<forall>d \<in> set ds. lacks_type d \<or> has_str_type d) \<longrightarrow>
        get_alerts_malware r =
          Inr (if \<exists>d \<in> set ds. detection_type_is ''malware'' d then 2 else 0)
      \<and> get_alerts_secrets r =
          Inr (if \<exists>d \<in> set ds. detection_type_is ''secret'' d then 3 else 0))
   \<and> (\<forall>pre d post. ds = pre @ d # post \<and> (\<forall>x \<in> set pre. lacks_type x \<or> has_str_type x) \<longrightarrow>
        (detection_type_is ''malware'' d \<longrightarrow> get_alerts_malware r = Inr 2)
      \<and> (detection_type_is ''secret'' d \<longrightarrow> get_alerts_secrets r = Inr 3))
   \<and> (\<forall>d rest. ds = d # rest \<and> lacks_type d \<longrightarrow>
        get_alerts_malware r = malware_loop rest 0
      \<and> get_alerts_secrets r = secrets_loop rest 0)
   \<and> (\<forall>c. get_alerts_malware r = Inr c \<longrightarrow> c = 0 \<or> c = 2)
   \<and> (\<forall>c. get_alerts_secrets r = Inr c \<longrightarrow> c = 0 \<or> c = 3)"
proof (intro impI)
  assume D: "map_of r ''Detections'' = Some (JList ds)"
  have m: "get_alerts_malware r = malware_loop ds 0" using D by (rule malware_at_list)
  have s: "get_alerts_secrets r = secrets_loop ds 0" using D by (rule secrets_at_list)
  have all: "get_alerts_malware r =
          Inr (if \<exists>d \<in> set ds. detection_type_is ''malware'' d then 2 else 0)
      \<and> get_alerts_secrets r =
          Inr (if \<exists>d \<in> set ds. detection_type_is ''secret'' d then 3 else 0)"
    if "\<forall>d \<in> set ds. lacks_type d \<or> has_str_type d"
    using that by (simp add: m s malware_loop_all secrets_loop_all)
  have first: "(detection_type_is ''malware'' d \<longrightarrow> get_alerts_malware r = Inr 2)
      \<and> (detection_type_is ''secret'' d \<longrightarrow> get_alerts_secrets r = Inr 3)"
    if "ds = pre @ d # post" and "\<forall>x \<in> set pre. lacks_type x \<or> has_str_type x" for pre d post
    using that by (simp add: m s malware_loop_first secrets_loop_first)
  have skip: "get_alerts_malware r = malware_loop rest 0
      \<and> get_alerts_secrets r = secrets_loop rest 0"
    if "ds = d # rest" and "lacks_type d" for d rest
    unfolding m s that(1) by (simp only: loops_skip [OF that(2)])
  have mv: "c = 0 \<or> c = 2" if "get_alerts_malware r = Inr c" for c
    using that by (rule get_alerts_malware_values)
  have sv: "c = 0 \<or> c = 3" if "get_alerts_secrets r = Inr c" for c
    using that by (rule get_alerts_secrets_values)
  from all first skip mv sv
  show "((\<forall>d \<in> set ds. lacks_type d \<or> has_str_type d) \<longrightarrow>
        get_alerts_malware r =
          Inr (if \<exists>d \<in> set ds. detection_type_is ''malware'' d then 2 else 0)
      \<and> get_alerts_secrets r =
          Inr (if \<exists>d \<in> set ds. detection_type_is ''secret'' d then 3 else 0))
   \<and> (\<forall>pre d post. ds = pre @ d # post \<and> (\<forall>x \<in> set pre. lacks_type x \<or> has_str_type x) \<longrightarrow>
        (detection_type_is ''malware'' d \<longrightarrow> get_alerts_malware r = Inr 2)
      \<and> (detection_type_is ''secret'' d \<longrightarrow> get_alerts_secrets r = Inr 3))
   \<and> (\<forall>d rest. ds = d # rest \<and> lacks_type d \<longrightarrow>
        get_alerts_malware r = malware_loop rest 0
      \<and> get_alerts_secrets r = secrets_loop rest 0)
   \<and> (\<forall>c. get_alerts_malware r = Inr c \<longrightarrow> c = 0 \<or> c = 2)
   \<and> (\<forall>c. get_alerts_secrets r = Inr c \<longrightarrow> c = 0 \<or> c = 3)"
    by blast
qed


theorem malware_and_secrets_flags_witness:
  "get_alerts_malware (report_of []
      [JDict [], detection_of (JStr ''Secret''), detection_of (JStr ''MALWARE''),
       detection_of (JStr ''malware'')]) = Inr 2
   \<and> get_alerts_secrets (report_of []
      [JDict [], detection_of (JStr ''Secret''), detection_of (JStr ''MALWARE''),
       detection_of (JStr ''malware'')]) = Inr 3
   \<and> get_alerts_malware (report_of []
      [JDict [], detection_of (JStr ''Malware''), detection_of (JNum 5)]) = Inr 2
   \<and> get_alerts_secrets (report_of []
      [JDict [], detection_of (JStr ''SECRET''), detection_of (JNum 5)]) = Inr 3
   \<and> get_alerts_malware (report_of [] [JDict [], detection_of (JStr ''cis'')]) = Inr 0
   \<and> get_alerts_secrets (report_of [] [JDict [], detection_of (JStr ''cis'')]) = Inr 0"
proof -
  let ?a = "[JDict [], detection_of (JStr ''Secret''), detection_of (JStr ''MALWARE''),
       detection_of (JStr ''malware'')]"
  have a1: "map_of (report_of [] ?a) ''Detections'' = Some (JList ?a)" by code_simp
  have a2: "\<forall>d \<in> set ?a. lacks_type d \<or> has_str_type d" by code_simp
  have a3: "\<exists>d \<in> set ?a. detection_type_is ''malware'' d" by code_simp
  have a4: "\<exists>d \<in> set ?a. detection_type_is ''secret'' d" by code_simp
  have A: "get_alerts_malware (report_of [] ?a) = Inr 2
      \<and> get_alerts_secrets (report_of [] ?a) = Inr 3"
    using malware_and_secrets_flags [of "report_of [] ?a" ?a] a1 a2 a3 a4 by presburger
  let ?b = "[JDict [], detection_of (JStr ''Malware''), detection_of (JNum 5)]"
  have b1: "map_of (report_of [] ?b) ''Detections'' = Some (JList ?b)" by code_simp
  have b2: "?b = [JDict []] @ detection_of (JStr ''Malware'') # [detection_of (JNum 5)]"
    by simp
  have b3: "\<forall>x \<in> set [JDict []]. lacks_type x \<or> has_str_type x" by code_simp
  have b4: "detection_type_is ''malware'' (detection_of (JStr ''Malware''))" by code_simp
  have B: "get_alerts_malware (report_of [] ?b) = Inr 2"
    using malware_and_secrets_flags [of "report_of [] ?b" ?b] b1 b2 b3 b4 by blast
  let ?c = "[JDict [], detection_of (JStr ''SECRET''), detection_of (JNum 5)]"
  have c1: "map_of (report_of [] ?c) ''Detections'' = Some (JList ?c)" by code_simp
  have c2: "?c = [JDict []] @ detection_of (JStr ''SECRET'') # [detection_of (JNum 5)]"
    by simp
  have c4: "detection_type_is ''secret'' (detection_of (JStr ''SECRET''))" by code_simp
  have C: "get_alerts_secrets (report_of [] ?c) = Inr 3"
    using malware_and_secrets_flags [of "report_of [] ?c" ?c] c1 c2 b3 c4 by blast
  let ?e = "[JDict [], detection_of (JStr ''cis'')]"
  have e1: "map_of (report_of [] ?e) ''Detections'' = Some (JList ?e)" by code_simp
  have e2: "\<forall>d \<in> set ?e. lacks_type d \<or> has_str_type d" by code_simp
  have e3: "\<not> (\<exists>d \<in> set ?e. detection_type_is ''malware'' d)" by code_simp
  have e4: "\<not> (\<exists>d \<in> set ?e. detection_type_is ''secret'' d)" by code_simp
  have E: "get_alerts_malware (report_of [] ?e) = Inr 0
      \<and> get_alerts_secrets (report_of [] ?e) = Inr 0"
    using malware_and_secrets_flags [of "report_of [] ?e" ?e] e1 e2 e3 e4 by presburger
  from A B C E show ?thesis by blast
qed

section \<open>Malformed vulnerability entries\<close>




section \<open>The report fetcher\<close>

text \<open>
  Claim C8. \<open>get_scanreport\<close> with the retry count \<open>N\<close> sleeps ten seconds before each
  call of the endpoint and takes every response whose status code is not 200 as not
  ready. When none of the first \<open>N\<close> responses is ready it has made \<open>N\<close> attempts and
  raises \<open>RetryExhaustedError\<close>, which names \<open>N\<close>, and \<open>main\<close> exits with
  \<open>ScriptFailure\<close>, 10. When response \<open>k\<close> is the first ready one among them it has
  made \<open>k + 1\<close> attempts and returns the report built from the body of that response.
\<close>

theorem fetch_polls_until_ready:
  "((\<forall>k. int k < retry_count \<longrightarrow> resp_status_code (falcon k) \<noteq> 200) \<longrightarrow>
      get_scanreport falcon retry_count
        = (attempts (nat retry_count), Inl (RetryExhaustedError retry_count))
      \<and> main falcon retry_count plugin export score = enum_value ScriptFailure)
   \<and> (\<forall>k. int k < retry_count \<and> resp_status_code (falcon k) = 200
          \<and> (\<forall>j<k. resp_status_code (falcon j) \<noteq> 200) \<longrightarrow>
        get_scanreport falcon retry_count = (attempts (k + 1), Inr (resp_body (falcon k))))
   \<and> attempts 2 = [Sleep 10, GetAssessment, Sleep 10, GetAssessment]"
proof -
  have ex: "get_scanreport falcon retry_count
        = (attempts (nat retry_count), Inl (RetryExhaustedError retry_count))
      \<and> main falcon retry_count plugin export score = enum_value ScriptFailure"
    if "\<forall>k. int k < retry_count \<longrightarrow> resp_status_code (falcon k) \<noteq> 200"
  proof -
    have g: "get_scanreport falcon retry_count
        = (attempts (nat retry_count - 0), Inl (RetryExhaustedError retry_count))"
      unfolding get_scanreport_def using that by (intro poll_exhausted) simp
    then have "main_body falcon retry_count plugin export score
        = Inl (RetryExhaustedError retry_count)"
      by (simp add: main_body_def)
    then have "main falcon retry_count plugin export score = 10" by (rule main_raises)
    with g show ?thesis by simp
  qed
  have rd: "get_scanreport falcon retry_count = (attempts (k + 1), Inr (resp_body (falcon k)))"
    if "int k < retry_count" and "resp_status_code (falcon k) = 200"
      and "\<forall>j<k. resp_status_code (falcon j) \<noteq> 200" for k
  proof -
    have "poll falcon retry_count 0 = (attempts (k - 0 + 1), Inr (resp_body (falcon k)))"
      using that by (intro poll_ready) simp_all
    then show ?thesis by (simp add: get_scanreport_def)
  qed
  have tr: "attempts 2 = [Sleep 10, GetAssessment, Sleep 10, GetAssessment]"
    by code_simp
  from ex rd tr show ?thesis by blast
qed

theorem fetch_polls_until_ready_witness:
  "get_scanreport
      (\<lambda>k. \<lparr>resp_status_code = (if k = 2 then 200 else 404), resp_body = report_of [] []\<rparr>) 2
     = ([Sleep 10, GetAssessment, Sleep 10, GetAssessment], Inl (RetryExhaustedError 2))
   \<and> main (\<lambda>k. \<lparr>resp_status_code = (if k = 2 then 200 else 404),
        resp_body = report_of [] []\<rparr>) 2 False None (Inr 500) = 10
   \<and> get_scanreport
      (\<lambda>k. \<lparr>resp_status_code = (if k = 2 then 200 else 404), resp_body = report_of [] []\<rparr>)
      100
     = (attempts 3, Inr (report_of [] []))"
proof -
  let ?f = "\<lambda>k::nat. \<lparr>resp_status_code = (if k = 2 then 200 else 404),
    resp_body = report_of [] []\<rparr>"
  have a: "\<forall>k. int k < 2 \<longrightarrow> resp_status_code (?f k) \<noteq> 200" by simp
  have A: "get_scanreport ?f 2
        = (attempts (nat 2), Inl (RetryExhaustedError 2))
      \<and> main ?f 2 False None (Inr 500) = enum_value ScriptFailure"
    using fetch_polls_until_ready [of 2 ?f False None "Inr 500"] a by blast
  have b: "int 2 < 100 \<and> resp_status_code (?f 2) = 200
      \<and> (\<forall>j<2. resp_status_code (?f j) \<noteq> 200)" by simp
  have B: "get_scanreport ?f 100 = (attempts (2 + 1), Inr (resp_body (?f 2)))"
    using fetch_polls_until_ready [of 100 ?f] b by blast
  have t: "attempts 2 = [Sleep 10, GetAssessment, Sleep 10, GetAssessment]"
    using fetch_polls_until_ready [of 0 ?f] by blast
  from A B t show ?thesis by simp
qed

section \<open>The misconfiguration code in the combined status and the exit code\<close>

text \<open>
  Claim C9, as the code has it. \<open>get_alerts_misconfig\<close> does not return 0 on every
  report: without the \<open>Detections\<close> key it raises \<open>KeyError\<close>. And a misconfiguration
  finding can change the combined status and the exit code: on the detections secret,
  malware and one whose type is a number the misconfiguration scan raises, \<open>status_code\<close>
  raises and \<open>main\<close> exits with 10; with a \<open>cis\<close> detection put before the last one
  the misconfiguration scan stops at it, \<open>status_code\<close> is 3 and \<open>main\<close> exits with
  3.
\<close>

theorem misconfig_insertion_counterexample:
  "get_alerts_misconfig [(''Vulnerabilities'', JList [])] = Inl KeyError
   \<and> detection_type_is ''cis'' (detection_of (JStr ''cis''))
   \<and> status_code (report_of []
        [detection_of (JStr ''secret''), detection_of (JStr ''malware''),
         detection_of (JNum 5)]) = Inl AttributeError
   \<and> status_code (report_of []
        [detection_of (JStr ''secret''), detection_of (JStr ''malware''),
         detection_of (JStr ''cis''), detection_of (JNum 5)]) = Inr 3
   \<and> main (ready_with (report_of []
        [detection_of (JStr ''secret''), detection_of (JStr ''malware''),
         detection_of (JNum 5)])) 100 False None (Inr 500) = 10
   \<and> main (ready_with (report_of []
        [detection_of (JStr ''secret''), detection_of (JStr ''malware''),
         detection_of (JStr ''cis''), detection_of (JNum 5)])) 100 False None (Inr 500) = 3"
  by code_simp

text \<open>
  Claim C9, amended. \<open>get_alerts_misconfig\<close> never returns anything but 0: on every
  report it returns 0 or raises, since a match assigns \<open>ScanStatusCode.Success.value\<close>,
  which is 0. \<open>status_code\<close> is the first exception of the four scans or, when all
  four return, the bitwise or of the other three codes. And a detection whose type,
  lowered, is \<open>misconfiguration\<close> or \<open>cis\<close>, put anywhere into the detection list of
  a report on which the misconfiguration scan returns, leaves that scan at 0 and changes
  neither \<open>status_code\<close> nor the exit code of \<open>main\<close> run without \<open>--plugin\<close>.
\<close>

theorem misconfig_code_never_counts:
  "(get_alerts_misconfig r = Inr 0 \<or> (\<exists>e. get_alerts_misconfig r = Inl e))
   \<and> status_code r =
       ebind (get_alerts_vuln r) (\<lambda>vuln_code.
       ebind (get_alerts_malware r) (\<lambda>mal_code.
       ebind (get_alerts_secrets r) (\<lambda>sec_code.
       ebind (get_alerts_misconfig r) (\<lambda>mcfg_code.
       Inr (vuln_code OR mal_code OR sec_code)))))
   \<and> (\<forall>r' pre d post c.
         map_of r' ''Vulnerabilities'' = map_of r ''Vulnerabilities''
       \<and> map_of r ''Detections'' = Some (JList (pre @ post))
       \<and> map_of r' ''Detections'' = Some (JList (pre @ d # post))
       \<and> (detection_type_is ''misconfiguration'' d \<or> detection_type_is ''cis'' d)
       \<and> get_alerts_misconfig r = Inr c
       \<longrightarrow> get_alerts_misconfig r' = Inr 0
         \<and> status_code r' = status_code r
         \<and> (\<forall>n export score.
              main (ready_with r') n False export score
              = main (ready_with r) n False export score))"
proof -
  have zero: "get_alerts_misconfig r = Inr 0 \<or> (\<exists>e. get_alerts_misconfig r = Inl e)"
    by (cases "get_alerts_misconfig r") (auto dest: get_alerts_misconfig_zero)
  have comb: "status_code r =
       ebind (get_alerts_vuln r) (\<lambda>vuln_code.
       ebind (get_alerts_malware r) (\<lambda>mal_code.
       ebind (get_alerts_secrets r) (\<lambda>sec_code.
       ebind (get_alerts_misconfig r) (\<lambda>mcfg_code.
       Inr (vuln_code OR mal_code OR sec_code)))))"
    by (cases "get_alerts_vuln r"; cases "get_alerts_malware r"; cases "get_alerts_secrets r";
        cases "get_alerts_misconfig r")
       (auto simp: status_code_def dest: get_alerts_misconfig_zero)
  have ins: "get_alerts_misconfig r' = Inr 0
         \<and> status_code r' = status_code r
         \<and> (\<forall>n export score.
              main (ready_with r') n False export score
              = main (ready_with r) n False export score)"
    if V: "map_of r' ''Vulnerabilities'' = map_of r ''Vulnerabilities''"
      and D: "map_of r ''Detections'' = Some (JList (pre @ post))"
      and D': "map_of r' ''Detections'' = Some (JList (pre @ d # post))"
      and d: "detection_type_is ''misconfiguration'' d \<or> detection_type_is ''cis'' d"
      and c: "get_alerts_misconfig r = Inr c"
    for r' pre d post c
  proof -
    from d obtain t where t: "detection_type d = Inr t" "t = type_misconfig \<or> t = type_cis"
      by (auto simp: type_misconfig_def type_cis_def simp flip: detection_type_Inr_iff)
    then have nm: "t \<noteq> type_malware" and ns: "t \<noteq> type_secret"
      by (auto simp: type_misconfig_def type_cis_def type_malware_def type_secret_def)
    have v: "get_alerts_vuln r' = get_alerts_vuln r" using V by (rule get_alerts_vuln_cong)
    have m: "get_alerts_malware r' = get_alerts_malware r"
      by (simp only: malware_at_list [OF D] malware_at_list [OF D']
          malware_loop_insert [OF t(1) nm])
    have s: "get_alerts_secrets r' = get_alerts_secrets r"
      by (simp only: secrets_at_list [OF D] secrets_at_list [OF D']
          secrets_loop_insert [OF t(1) ns])
    from c have c0: "get_alerts_misconfig r = Inr 0"
      by (auto dest: get_alerts_misconfig_zero)
    then have "misconfig_loop (pre @ post) 0 = Inr 0"
      by (simp only: misconfig_at_list [OF D])
    then have "misconfig_loop (pre @ d # post) 0 = Inr 0"
      by (rule misconfig_loop_insert [OF t])
    then have g0: "get_alerts_misconfig r' = Inr 0"
      by (simp only: misconfig_at_list [OF D'])
    with c0 have g: "get_alerts_misconfig r' = get_alerts_misconfig r" by simp
    have "status_code r' = status_code r"
      by (simp only: status_code_def v m s g)
    moreover have "main (ready_with r') n False export score
        = main (ready_with r) n False export score" for n export score
      using v s m g by (rule main_cong)
    ultimately show ?thesis using g0 by blast
  qed
  from zero comb ins show ?thesis by blast
qed

theorem misconfig_code_never_counts_witness:
  "get_alerts_misconfig
     (report_of [finding_of (JStr ''high'')]
        [detection_of (JStr ''Malware''), detection_of (JStr ''CIS'')]) = Inr 0
   \<and> status_code
     (report_of [finding_of (JStr ''high'')]
        [detection_of (JStr ''Malware''), detection_of (JStr ''CIS'')])
     = status_code (report_of [finding_of (JStr ''high'')] [detection_of (JStr ''Malware'')])
   \<and> main (ready_with (report_of [finding_of (JStr ''high'')]
        [detection_of (JStr ''Malware''), detection_of (JStr ''CIS'')])) 100 False None (Inr 500)
     = main (ready_with (report_of [finding_of (JStr ''high'')]
        [detection_of (JStr ''Malware'')])) 100 False None (Inr 500)"
proof -
  let ?vs = "[finding_of (JStr ''high'')]"
  let ?pre = "[detection_of (JStr ''Malware'')]"
  let ?d = "detection_of (JStr ''CIS'')"
  let ?r = "report_of ?vs (?pre @ [])"
  let ?r' = "report_of ?vs (?pre @ ?d # [])"
  have h1: "map_of ?r' ''Vulnerabilities'' = map_of ?r ''Vulnerabilities''" by code_simp
  have h2: "map_of ?r ''Detections'' = Some (JList (?pre @ []))" by code_simp
  have h3: "map_of ?r' ''Detections'' = Some (JList (?pre @ ?d # []))" by code_simp
  have h4: "detection_type_is ''cis'' ?d" by code_simp
  have h5: "get_alerts_misconfig ?r = Inr 0" by code_simp
  have "get_alerts_misconfig ?r' = Inr 0
         \<and> status_code ?r' = status_code ?r
         \<and> (\<forall>n export score.
              main (ready_with ?r') n False export score
              = main (ready_with ?r) n False export score)"
    using misconfig_code_never_counts [of ?r] h1 h2 h3 h4 h5 by blast
  then show ?thesis by simp
qed

section \<open>Detections whose type is not a string\<close>

text \<open>
  Claim C10. The detection scans catch \<open>KeyError\<close> only. A report whose first detection
  has a \<open>Detection.Type\<close> that is present and is not a string (a number, say) makes
  each of the three scans raise \<open>AttributeError\<close> instead of passing the entry over, as
  they do for a first detection that lacks its type; \<open>main\<close> then exits with 10.
\<close>

theorem non_string_type_raises:
  assumes "\<not> is_str t"
  shows "get_alerts_malware (report_of vs (detection_of t # rest)) = Inl AttributeError
     \<and> get_alerts_secrets (report_of vs (detection_of t # rest)) = Inl AttributeError
     \<and> get_alerts_misconfig (report_of vs (detection_of t # rest)) = Inl AttributeError
     \<and> main (ready_with (report_of vs (detection_of t # rest))) n False export score = 10
     \<and> (\<forall>d. lacks_type d \<longrightarrow>
          get_alerts_malware (report_of vs (d # rest)) = get_alerts_malware (report_of vs rest)
        \<and> get_alerts_secrets (report_of vs (d # rest)) = get_alerts_secrets (report_of vs rest)
        \<and> get_alerts_misconfig (report_of vs (d # rest))
            = get_alerts_misconfig (report_of vs rest))"
proof -
  let ?r = "report_of vs (detection_of t # rest)"
  have dt: "detection_type (detection_of t) = Inl AttributeError"
    using assms by (cases t) (simp_all add: detection_type_def detection_of_def)
  have at: "map_of (report_of vs ds) ''Detections'' = Some (JList ds)" for ds
    by (simp add: report_of_def)
  have m: "get_alerts_malware ?r = Inl AttributeError"
    by (simp add: malware_at_list [OF at] dt)
  have s: "get_alerts_secrets ?r = Inl AttributeError"
    by (simp add: secrets_at_list [OF at] dt)
  have c: "get_alerts_misconfig ?r = Inl AttributeError"
    by (simp add: misconfig_at_list [OF at] dt)
  have "\<exists>e. main_body (ready_with ?r) n False export score = Inl e"
    by (cases "0 < n"; cases export; cases "get_alerts_vuln ?r")
       (simp_all add: main_body_def get_scanreport_ready_with s)
  then have x: "main (ready_with ?r) n False export score = 10"
    by (auto dest: main_raises)
  have k: "get_alerts_malware (report_of vs (d # rest)) = get_alerts_malware (report_of vs rest)
        \<and> get_alerts_secrets (report_of vs (d # rest)) = get_alerts_secrets (report_of vs rest)
        \<and> get_alerts_misconfig (report_of vs (d # rest))
            = get_alerts_misconfig (report_of vs rest)" if "lacks_type d" for d
    by (simp only: malware_at_list [OF at] secrets_at_list [OF at] misconfig_at_list [OF at]
        loops_skip [OF that])
  from m s c x k show ?thesis by blast
qed

theorem non_string_type_raises_witness:
  "\<not> is_str (JNum 5)
   \<and> get_alerts_malware (report_of [] [detection_of (JNum 5)]) = Inl AttributeError
   \<and> get_alerts_secrets (report_of [] [detection_of (JNum 5)]) = Inl AttributeError
   \<and> get_alerts_misconfig (report_of [] [detection_of (JNum 5)]) = Inl AttributeError
   \<and> main (ready_with (report_of [] [detection_of (JNum 5)])) 100 False None (Inr 500) = 10
   \<and> lacks_type (JDict [(''Detection'', JDict [])])
   \<and> get_alerts_malware (report_of [] [JDict [(''Detection'', JDict [])]])
       = get_alerts_malware (report_of [] [])"
proof -
  have h: "\<not> is_str (JNum 5)" by simp
  have l: "lacks_type (JDict [(''Detection'', JDict [])])" by code_simp
  from non_string_type_raises [OF h, of "[]" "[]" 100 None "Inr 500"] h l
  show ?thesis by blast
qed

end
